theory Spec2Isabelle
  imports Main "HOL-Library.Word" "HOL-Library.Signed_Division" "HOL-Library.Monad_Syntax"
    "HOL-Library.AList"
begin

section \<open>Conventions of the embedding\<close>

text \<open>
  The storage kernel of minidb has three layers: the disk manager
  (\<^verbatim>\<open>pkg/storage/disk/disk_manager.go\<close>), the buffer pool with its LRU replacer
  (\<^verbatim>\<open>pkg/buffer\<close>) and the B+ tree with its page layout and iterator
  (\<^verbatim>\<open>pkg/storage/page/layout.go\<close>, \<^verbatim>\<open>pkg/storage/index\<close>).  Each Go function is a
  HOL function of the same name that takes the state it touches and returns the new state.

  \<^item> Go's \<^verbatim>\<open>int32\<close>, \<^verbatim>\<open>uint32\<close> and \<^verbatim>\<open>PageID\<close> are \<open>32 word\<close>, \<^verbatim>\<open>int64\<close> is \<open>64 word\<close>;
    conversions between the signed and the unsigned reading keep the bits.  Slot indices,
    which Go computes in \<^verbatim>\<open>int32\<close> and then widens to \<^verbatim>\<open>int\<close>, are \<open>int\<close>; every access
    checks that the bytes it touches lie inside the 4096-byte page.
  \<^item> A result \<open>None\<close> of an operation means that the Go code does not return normally
    there (a slice-bounds or nil-pointer panic), that the fuel of a loop the model cannot
    bound ran out, or that the access is one the slot model below does not cover.
  \<^item> A \<^verbatim>\<open>*page.Page\<close> and the \<^verbatim>\<open>BPlusTreePage\<close> wrapped around its \<^verbatim>\<open>Data\<close> are the index
    of the frame in the pool's \<^verbatim>\<open>pages\<close> array: two handles of one frame see each other's
    writes, as the two Go pointers do.
\<close>

type_synonym byte = "8 word"

definition PageSize :: int where "PageSize = 4096"
definition SizeOfPageID :: int where "SizeOfPageID = 4"
definition SizeOfInt64 :: int where "SizeOfInt64 = 8"
definition SizeOfVal :: int where "SizeOfVal = 128"
definition HeaderSize :: int where "HeaderSize = 24"
definition MaxDegree :: int where "MaxDegree = 29"
definition KindInternal :: "32 word" where "KindInternal = 1"
definition KindLeaf :: "32 word" where "KindLeaf = 2"
definition InvalidPageID :: "32 word" where "InvalidPageID = - 1"

section \<open>The page payload (layout.go)\<close>

text \<open>
  The 4096 bytes of a page are a 24-byte header of six little-endian 32-bit fields and a
  slot area.  The header fields are kept as words.  The slot area is kept as the list of
  its slots: 136-byte (key, value) slots when the page is a leaf, 12-byte (key, child)
  slots otherwise.  A slot list holds the slots up to the highest one written since the
  page was last zeroed; the slots behind it read as zero.  The two lists stand for the
  same bytes: the tree sets the kind of a page once, on a zeroed page, so only the list of
  that kind is ever written.  Reading or writing a 128-byte value in the slot area of
  a page that is not a leaf is outside this model (\<open>None\<close>).
\<close>

record payload =
  hdr_PageID :: "32 word"
  hdr_ParentID :: "32 word"
  hdr_PageType :: "32 word"
  hdr_Count :: "32 word"
  hdr_NextPageID :: "32 word"
  hdr_MaxCount :: "32 word"
  leaf_slots :: "(64 word \<times> byte list) list"
  internal_slots :: "(64 word \<times> 32 word) list"

definition zero_value :: "byte list" where
  "zero_value = replicate 128 0"

definition zero_payload :: payload where
  "zero_payload = \<lparr>hdr_PageID = 0, hdr_ParentID = 0, hdr_PageType = 0, hdr_Count = 0,
     hdr_NextPageID = 0, hdr_MaxCount = 0, leaf_slots = [], internal_slots = []\<rparr>"

fun slot_read :: "'a \<Rightarrow> 'a list \<Rightarrow> nat \<Rightarrow> 'a" where
  "slot_read z [] i = z"
| "slot_read z (x # xs) 0 = x"
| "slot_read z (x # xs) (Suc i) = slot_read z xs i"

fun slot_write :: "'a \<Rightarrow> 'a list \<Rightarrow> nat \<Rightarrow> 'a \<Rightarrow> 'a list" where
  "slot_write z [] 0 v = [v]"
| "slot_write z [] (Suc i) v = z # slot_write z [] i v"
| "slot_write z (x # xs) 0 v = v # xs"
| "slot_write z (x # xs) (Suc i) v = x # slot_write z xs i v"

text \<open>\<^verbatim>\<open>p.Data[off : off+n]\<close> panics unless the range lies inside the page.\<close>

definition in_page :: "int \<Rightarrow> int \<Rightarrow> bool" where
  "in_page off n \<longleftrightarrow> 0 \<le> off \<and> off + n \<le> PageSize"

definition GetPageID :: "payload \<Rightarrow> 32 word" where "GetPageID p = hdr_PageID p"
definition SetPageID :: "32 word \<Rightarrow> payload \<Rightarrow> payload" where
  "SetPageID v p = p\<lparr>hdr_PageID := v\<rparr>"
definition GetParentID :: "payload \<Rightarrow> 32 word" where "GetParentID p = hdr_ParentID p"
definition SetParentID :: "32 word \<Rightarrow> payload \<Rightarrow> payload" where
  "SetParentID v p = p\<lparr>hdr_ParentID := v\<rparr>"
definition GetPageType :: "payload \<Rightarrow> 32 word" where "GetPageType p = hdr_PageType p"
definition SetPageType :: "32 word \<Rightarrow> payload \<Rightarrow> payload" where
  "SetPageType v p = p\<lparr>hdr_PageType := v\<rparr>"
definition GetCount :: "payload \<Rightarrow> int" where "GetCount p = sint (hdr_Count p)"
definition SetCount :: "int \<Rightarrow> payload \<Rightarrow> payload" where
  "SetCount c p = p\<lparr>hdr_Count := word_of_int c\<rparr>"
definition GetNextPageID :: "payload \<Rightarrow> 32 word" where "GetNextPageID p = hdr_NextPageID p"
definition SetNextPageID :: "32 word \<Rightarrow> payload \<Rightarrow> payload" where
  "SetNextPageID v p = p\<lparr>hdr_NextPageID := v\<rparr>"

definition Init :: "32 word \<Rightarrow> 32 word \<Rightarrow> 32 word \<Rightarrow> payload \<Rightarrow> payload" where
  "Init pageID pageType parentID p =
     SetNextPageID 0 (SetCount 0 (SetParentID parentID (SetPageType pageType (SetPageID pageID p))))"

definition IsLeaf :: "payload \<Rightarrow> bool" where
  "IsLeaf p \<longleftrightarrow> GetPageType p = KindLeaf"

definition getKeyOffset :: "payload \<Rightarrow> int \<Rightarrow> int" where
  "getKeyOffset p index =
     HeaderSize + index * (if IsLeaf p then SizeOfInt64 + SizeOfVal else SizeOfInt64 + SizeOfPageID)"

definition getPairOffset :: "payload \<Rightarrow> int \<Rightarrow> int" where
  "getPairOffset p index = getKeyOffset p index"

definition GetKey :: "payload \<Rightarrow> int \<Rightarrow> 64 word option" where
  "GetKey p index =
     (if in_page (getKeyOffset p index) SizeOfInt64
      then Some (if IsLeaf p then fst (slot_read (0, zero_value) (leaf_slots p) (nat index))
                 else fst (slot_read (0, 0) (internal_slots p) (nat index)))
      else None)"

definition SetKey :: "int \<Rightarrow> 64 word \<Rightarrow> payload \<Rightarrow> payload option" where
  "SetKey index key p =
     (if in_page (getKeyOffset p index) SizeOfInt64
      then Some (if IsLeaf p
                 then p\<lparr>leaf_slots := slot_write (0, zero_value) (leaf_slots p) (nat index)
                        (key, snd (slot_read (0, zero_value) (leaf_slots p) (nat index)))\<rparr>
                 else p\<lparr>internal_slots := slot_write (0, 0) (internal_slots p) (nat index)
                        (key, snd (slot_read (0, 0) (internal_slots p) (nat index)))\<rparr>)
      else None)"

text \<open>\<^verbatim>\<open>GetValue\<close> returns a fresh 128-byte copy of the value bytes of the slot.\<close>

definition GetValue :: "payload \<Rightarrow> int \<Rightarrow> byte list option" where
  "GetValue p index =
     (if in_page (getPairOffset p index + SizeOfInt64) SizeOfVal \<and> IsLeaf p
      then Some (snd (slot_read (0, zero_value) (leaf_slots p) (nat index)))
      else None)"

text \<open>
  Go's \<^verbatim>\<open>copy(dst, src)\<close> overwrites the first \<open>min (len dst) (len src)\<close> bytes of \<open>dst\<close>
  and leaves the others as they are.
\<close>

definition copy_bytes :: "byte list \<Rightarrow> byte list \<Rightarrow> byte list" where
  "copy_bytes dst src = take (length dst) src @ drop (length src) dst"

definition SetValue :: "int \<Rightarrow> byte list \<Rightarrow> payload \<Rightarrow> payload option" where
  "SetValue index val p =
     (if in_page (getPairOffset p index + SizeOfInt64) SizeOfVal \<and> IsLeaf p
      then Some (p\<lparr>leaf_slots := slot_write (0, zero_value) (leaf_slots p) (nat index)
             (fst (slot_read (0, zero_value) (leaf_slots p) (nat index)),
              copy_bytes (snd (slot_read (0, zero_value) (leaf_slots p) (nat index))) val)\<rparr>)
      else None)"

text \<open>
  On a leaf the four bytes after the key are the first four bytes of the value, read and
  written as a little-endian word.
\<close>

definition le32_decode :: "byte list \<Rightarrow> 32 word" where
  "le32_decode bs = foldr (\<lambda>b w. or (ucast b) (push_bit 8 w)) (take 4 bs) 0"

definition le32_encode :: "32 word \<Rightarrow> byte list" where
  "le32_encode w = [ucast w, ucast (drop_bit 8 w), ucast (drop_bit 16 w), ucast (drop_bit 24 w)]"

definition GetValueAsPageID :: "payload \<Rightarrow> int \<Rightarrow> 32 word option" where
  "GetValueAsPageID p index =
     (if in_page (getPairOffset p index + SizeOfInt64) SizeOfPageID
      then Some (if IsLeaf p
                 then le32_decode (snd (slot_read (0, zero_value) (leaf_slots p) (nat index)))
                 else snd (slot_read (0, 0) (internal_slots p) (nat index)))
      else None)"

definition SetValueAsPageID :: "int \<Rightarrow> 32 word \<Rightarrow> payload \<Rightarrow> payload option" where
  "SetValueAsPageID index pageID p =
     (if in_page (getPairOffset p index + SizeOfInt64) SizeOfPageID
      then Some (if IsLeaf p
                 then p\<lparr>leaf_slots := slot_write (0, zero_value) (leaf_slots p) (nat index)
                        (fst (slot_read (0, zero_value) (leaf_slots p) (nat index)),
                         copy_bytes (snd (slot_read (0, zero_value) (leaf_slots p) (nat index)))
                           (le32_encode pageID))\<rparr>
                 else p\<lparr>internal_slots := slot_write (0, 0) (internal_slots p) (nat index)
                        (fst (slot_read (0, 0) (internal_slots p) (nat index)), pageID)\<rparr>)
      else None)"

definition IsFull :: "payload \<Rightarrow> bool" where
  "IsFull node \<longleftrightarrow> MaxDegree - 1 \<le> GetCount node"

definition MinDegree :: "payload \<Rightarrow> int" where
  "MinDegree p = (if IsLeaf p then MaxDegree sdiv 2 else (MaxDegree + 1) sdiv 2)"


subsection \<open>Operations on the slots of a node\<close>

text \<open>
  The loops of layout.go, each a recursive function on the loop variable.  A function
  that works on two nodes takes and returns both payloads; the tree applies it to two
  different frames.
\<close>

text \<open>
  The search loop of \<^verbatim>\<open>InsertLeaf\<close>: \<open>Some None\<close> when the key is found (the function
  returns false), \<open>Some (Some index)\<close> for the insertion index.
\<close>

function InsertLeaf_scan :: "payload \<Rightarrow> 64 word \<Rightarrow> int \<Rightarrow> int \<Rightarrow> int option option" where
  "InsertLeaf_scan node key count index =
     (if index < count then
        do {
          currKey \<leftarrow> GetKey node index;
          if currKey = key then Some None
          else if key <s currKey then Some (Some index)
          else InsertLeaf_scan node key count (index + 1)
        }
      else Some (Some index))"
  by pat_completeness auto
termination
  by (relation "measure (\<lambda>(node, key, count, index). nat (count - index))") auto

function InsertLeaf_shift :: "int \<Rightarrow> int \<Rightarrow> payload \<Rightarrow> payload option" where
  "InsertLeaf_shift i index node =
     (if index < i then
        do {
          k \<leftarrow> GetKey node (i - 1);
          n1 \<leftarrow> SetKey i k node;
          v \<leftarrow> GetValue n1 (i - 1);
          n2 \<leftarrow> SetValue i v n1;
          InsertLeaf_shift (i - 1) index n2
        }
      else Some node)"
  by pat_completeness auto
termination
  by (relation "measure (\<lambda>(i, index, node). nat (i - index))") auto

definition InsertLeaf :: "64 word \<Rightarrow> byte list \<Rightarrow> payload \<Rightarrow> (bool \<times> payload) option" where
  "InsertLeaf key val node =
     (let count = GetCount node in
      do {
        found \<leftarrow> InsertLeaf_scan node key count 0;
        case found of
          None \<Rightarrow> Some (False, node)
        | Some index \<Rightarrow>
            do {
              n1 \<leftarrow> InsertLeaf_shift count index node;
              n2 \<leftarrow> SetKey index key n1;
              n3 \<leftarrow> SetValue index val n2;
              Some (True, SetCount (count + 1) n3)
            }
      })"

function MoveHalfTo_loop :: "int \<Rightarrow> int \<Rightarrow> int \<Rightarrow> payload \<Rightarrow> payload \<Rightarrow> payload option" where
  "MoveHalfTo_loop i moveCount splitIdx node recipient =
     (if i < moveCount then
        do {
          k \<leftarrow> GetKey node (splitIdx + i);
          r1 \<leftarrow> SetKey i k recipient;
          v \<leftarrow> GetValue node (splitIdx + i);
          r2 \<leftarrow> SetValue i v r1;
          MoveHalfTo_loop (i + 1) moveCount splitIdx node r2
        }
      else Some recipient)"
  by pat_completeness auto
termination
  by (relation "measure (\<lambda>(i, moveCount, splitIdx, node, recipient). nat (moveCount - i))") auto

text \<open>\<^verbatim>\<open>MoveHalfTo\<close> returns the node and the recipient.\<close>

definition MoveHalfTo :: "payload \<Rightarrow> payload \<Rightarrow> (payload \<times> payload) option" where
  "MoveHalfTo node recipient =
     (let count = GetCount node; splitIdx = count sdiv 2; moveCount = count - splitIdx in
      do {
        r \<leftarrow> MoveHalfTo_loop 0 moveCount splitIdx node recipient;
        Some (SetCount splitIdx node, SetCount moveCount r)
      })"

function Remove_loop :: "int \<Rightarrow> int \<Rightarrow> payload \<Rightarrow> payload option" where
  "Remove_loop i count p =
     (if i < count - 1 then
        do {
          k \<leftarrow> GetKey p (i + 1);
          p1 \<leftarrow> SetKey i k p;
          p2 \<leftarrow> (if IsLeaf p1
                 then do { v \<leftarrow> GetValue p1 (i + 1); SetValue i v p1 }
                 else do { c \<leftarrow> GetValueAsPageID p1 (i + 1); SetValueAsPageID i c p1 });
          Remove_loop (i + 1) count p2
        }
      else Some p)"
  by pat_completeness auto
termination
  by (relation "measure (\<lambda>(i, count, p). nat (count - 1 - i))") auto

definition Remove :: "int \<Rightarrow> payload \<Rightarrow> payload option" where
  "Remove index p =
     (let count = GetCount p in
      if count \<le> index \<or> index < 0 then Some p
      else do {
        p1 \<leftarrow> Remove_loop index count p;
        Some (SetCount (count - 1) p1)
      })"

function MoveAllTo_loop :: "int \<Rightarrow> int \<Rightarrow> int \<Rightarrow> payload \<Rightarrow> payload \<Rightarrow> payload option" where
  "MoveAllTo_loop i count startIdx p recipient =
     (if i < count then
        do {
          k \<leftarrow> GetKey p i;
          r1 \<leftarrow> SetKey (startIdx + i) k recipient;
          r2 \<leftarrow> (if IsLeaf p
                 then do { v \<leftarrow> GetValue p i; SetValue (startIdx + i) v r1 }
                 else do { c \<leftarrow> GetValueAsPageID p i; SetValueAsPageID (startIdx + i) c r1 });
          MoveAllTo_loop (i + 1) count startIdx p r2
        }
      else Some recipient)"
  by pat_completeness auto
termination
  by (relation "measure (\<lambda>(i, count, startIdx, p, recipient). nat (count - i))") auto

text \<open>\<^verbatim>\<open>MoveAllTo\<close> returns the emptied node and the recipient; \<open>middleKey\<close> is not used.\<close>

definition MoveAllTo :: "64 word \<Rightarrow> payload \<Rightarrow> payload \<Rightarrow> (payload \<times> payload) option" where
  "MoveAllTo middleKey p recipient =
     (let startIdx = GetCount recipient; count = GetCount p in
      do {
        r \<leftarrow> MoveAllTo_loop 0 count startIdx p recipient;
        Some (SetCount 0 p, SetCount (startIdx + count) r)
      })"

definition MoveFirstToEndOf :: "payload \<Rightarrow> payload \<Rightarrow> (payload \<times> payload) option" where
  "MoveFirstToEndOf p recipient =
     do {
       itemKey \<leftarrow> GetKey p 0;
       let idx = GetCount recipient;
       r1 \<leftarrow> SetKey idx itemKey recipient;
       r2 \<leftarrow> (if IsLeaf p
              then do { v \<leftarrow> GetValue p 0; SetValue idx v r1 }
              else do { c \<leftarrow> GetValueAsPageID p 0; SetValueAsPageID idx c r1 });
       let r3 = SetCount (idx + 1) r2;
       p1 \<leftarrow> Remove 0 p;
       Some (p1, r3)
     }"

function MoveLastToFrontOf_loop :: "int \<Rightarrow> payload \<Rightarrow> payload option" where
  "MoveLastToFrontOf_loop i recipient =
     (if 0 < i then
        do {
          k \<leftarrow> GetKey recipient (i - 1);
          r1 \<leftarrow> SetKey i k recipient;
          r2 \<leftarrow> (if IsLeaf r1
                 then do { v \<leftarrow> GetValue r1 (i - 1); SetValue i v r1 }
                 else do { c \<leftarrow> GetValueAsPageID r1 (i - 1); SetValueAsPageID i c r1 });
          MoveLastToFrontOf_loop (i - 1) r2
        }
      else Some recipient)"
  by pat_completeness auto
termination
  by (relation "measure (\<lambda>(i, recipient). nat i)") auto

definition MoveLastToFrontOf :: "payload \<Rightarrow> payload \<Rightarrow> (payload \<times> payload) option" where
  "MoveLastToFrontOf p recipient =
     (let count = GetCount p in
      do {
        itemKey \<leftarrow> GetKey p (count - 1);
        let recCount = GetCount recipient;
        r1 \<leftarrow> MoveLastToFrontOf_loop recCount recipient;
        r2 \<leftarrow> SetKey 0 itemKey r1;
        r3 \<leftarrow> (if IsLeaf p
               then do { v \<leftarrow> GetValue p (count - 1); SetValue 0 v r2 }
               else do { c \<leftarrow> GetValueAsPageID p (count - 1); SetValueAsPageID 0 c r2 });
        Some (SetCount (count - 1) p, SetCount (recCount + 1) r3)
      })"

section \<open>Pages and the disk manager (page.go, disk_manager.go)\<close>

text \<open>A buffer page: the control fields \<^verbatim>\<open>id\<close>, \<^verbatim>\<open>pinCount\<close>, \<^verbatim>\<open>isDirty\<close> and the payload.\<close>

record page =
  ID :: "32 word"
  PinCount :: "32 word"
  IsDirty :: bool
  Data :: payload

text \<open>
  The database file is the list of its whole pages and, when its size is not a multiple
  of the page size, the bytes behind them: their number and the page they are the start
  of.  A write behind the end of the file leaves a hole, which reads as zero pages.
\<close>

record os_file =
  file_pages :: "payload list"
  file_tail :: "(nat \<times> payload) option"

definition file_size :: "os_file \<Rightarrow> int" where
  "file_size f =
     PageSize * int (length (file_pages f)) + (case file_tail f of None \<Rightarrow> 0 | Some (n, d) \<Rightarrow> int n)"

definition Size :: "os_file \<Rightarrow> 64 word" where
  "Size f = word_of_int (file_size f)"

record DiskManagerImpl =
  dbFile :: os_file
  nextPageID :: "32 word"

text \<open>
  \<^verbatim>\<open>NewDiskManager\<close>, after the file is open: the next page id is the \<^verbatim>\<open>int64\<close> quotient
  of the file size by the page size, converted to the \<^verbatim>\<open>int32\<close> type \<^verbatim>\<open>PageID\<close>.
\<close>

definition NewDiskManager :: "os_file \<Rightarrow> DiskManagerImpl" where
  "NewDiskManager file = \<lparr>dbFile = file, nextPageID = word_of_int (sint (Size file) sdiv PageSize)\<rparr>"

text \<open>
  \<^verbatim>\<open>ReadPage\<close>: \<open>Some (Some d)\<close> is the payload read, \<open>Some None\<close> an error that leaves the
  caller's buffer as it was (a negative offset, or nothing to read at the offset).  A
  short read, which overwrites a part of the buffer, is outside the model.
\<close>

definition ReadPage :: "DiskManagerImpl \<Rightarrow> 32 word \<Rightarrow> payload option option" where
  "ReadPage d pageID =
     (let offset = sint pageID * PageSize in
      if offset < 0 then Some None
      else if offset + PageSize \<le> PageSize * int (length (file_pages (dbFile d)))
        then Some (Some (file_pages (dbFile d) ! nat (sint pageID)))
      else if offset < file_size (dbFile d) then None
      else Some None)"

text \<open>
  \<^verbatim>\<open>WritePage\<close> returns whether it failed, and the disk.  A write at or behind the end
  of the whole pages makes the bytes behind them a whole page.
\<close>

definition WritePage :: "DiskManagerImpl \<Rightarrow> 32 word \<Rightarrow> payload \<Rightarrow> bool \<times> DiskManagerImpl" where
  "WritePage d pageID dat =
     (let offset = sint pageID * PageSize; f = dbFile d in
      if offset < 0 then (True, d)
      else if nat (sint pageID) < length (file_pages f)
        then (False, d\<lparr>dbFile := f\<lparr>file_pages := (file_pages f)[nat (sint pageID) := dat]\<rparr>\<rparr>)
      else (False, d\<lparr>dbFile := \<lparr>
              file_pages = slot_write zero_payload
                (file_pages f @ (case file_tail f of None \<Rightarrow> [] | Some (n, t) \<Rightarrow> [t]))
                (nat (sint pageID)) dat,
              file_tail = None\<rparr>\<rparr>))"

definition AllocatePage :: "DiskManagerImpl \<Rightarrow> 32 word \<times> DiskManagerImpl" where
  "AllocatePage d = (nextPageID d, d\<lparr>nextPageID := nextPageID d + 1\<rparr>)"

definition DeallocatePage :: "DiskManagerImpl \<Rightarrow> 32 word \<Rightarrow> DiskManagerImpl" where
  "DeallocatePage d pageID = d"

text \<open>
  A run of the disk manager: the calls of its interface in any order.  \<open>run_disk\<close> returns
  the ids that the calls of \<^verbatim>\<open>AllocatePage\<close> in the run return, in order, and the disk
  manager after the run.  \<^verbatim>\<open>ReadPage\<close> fills the caller's page and leaves the disk manager
  as it is.
\<close>

datatype disk_call =
  DiskAllocatePage
| DiskWritePage "32 word" payload
| DiskReadPage "32 word"
| DiskDeallocatePage "32 word"

fun run_disk :: "disk_call list \<Rightarrow> DiskManagerImpl \<Rightarrow> 32 word list \<times> DiskManagerImpl" where
  "run_disk [] d = ([], d)"
| "run_disk (DiskAllocatePage # cs) d =
     (let (i, d1) = AllocatePage d; (is, d2) = run_disk cs d1 in (i # is, d2))"
| "run_disk (DiskWritePage pageID dat # cs) d = run_disk cs (snd (WritePage d pageID dat))"
| "run_disk (DiskReadPage pageID # cs) d = run_disk cs d"
| "run_disk (DiskDeallocatePage pageID # cs) d = run_disk cs (DeallocatePage d pageID)"

definition allocations :: "disk_call list \<Rightarrow> nat" where
  "allocations cs = length (filter (\<lambda>c. c = DiskAllocatePage) cs)"

section \<open>The LRU replacer (LRU_replacer.go)\<close>

text \<open>
  The linked list of frame ids, its front first.  The Go map \<^verbatim>\<open>elements\<close> indexes the
  list and holds at most one element per frame id.
\<close>

record LRUReplacer =
  capacity :: int
  lru_list :: "nat list"

definition NewLRUReplacer :: "int \<Rightarrow> LRUReplacer" where
  "NewLRUReplacer cap = \<lparr>capacity = cap, lru_list = []\<rparr>"

text \<open>\<^verbatim>\<open>Victim\<close>: \<open>None\<close> stands for the result \<open>-1\<close>.\<close>

definition Victim :: "LRUReplacer \<Rightarrow> nat option \<times> LRUReplacer" where
  "Victim l =
     (if length (lru_list l) = 0 then (None, l)
      else (Some (last (lru_list l)), l\<lparr>lru_list := butlast (lru_list l)\<rparr>))"

definition Pin :: "nat \<Rightarrow> LRUReplacer \<Rightarrow> LRUReplacer" where
  "Pin frameID l = l\<lparr>lru_list := removeAll frameID (lru_list l)\<rparr>"

definition Unpin :: "nat \<Rightarrow> LRUReplacer \<Rightarrow> LRUReplacer" where
  "Unpin frameID l =
     (if frameID \<in> set (lru_list l) then l
      else if capacity l \<le> int (length (lru_list l)) then l
      else l\<lparr>lru_list := frameID # lru_list l\<rparr>)"


section \<open>The buffer pool manager\<close>

text \<open>
  The page table, a Go map, is an association list with one entry per key, looked up
  with \<open>map_of\<close> and changed with \<open>AList.update\<close> and \<open>AList.delete\<close>.
\<close>

record BufferPoolManager =
  diskManager :: DiskManagerImpl
  pages :: "page list"
  replacer :: LRUReplacer
  freeList :: "nat list"
  pageTable :: "(32 word \<times> nat) list"

definition NewBufferPoolManager :: "DiskManagerImpl \<Rightarrow> nat \<Rightarrow> BufferPoolManager" where
  "NewBufferPoolManager dm poolSize =
     \<lparr>diskManager = dm,
      pages = replicate poolSize \<lparr>ID = 0, PinCount = 0, IsDirty = False, Data = zero_payload\<rparr>,
      replacer = NewLRUReplacer (int poolSize),
      freeList = [0..<poolSize],
      pageTable = []\<rparr>"

text \<open>\<^verbatim>\<open>b.pages[frameID]\<close> panics when the index is outside the array.\<close>

definition frame :: "BufferPoolManager \<Rightarrow> nat \<Rightarrow> page option" where
  "frame b frameID = (if frameID < length (pages b) then Some (pages b ! frameID) else None)"

definition set_frame :: "nat \<Rightarrow> page \<Rightarrow> BufferPoolManager \<Rightarrow> BufferPoolManager" where
  "set_frame frameID p b = b\<lparr>pages := (pages b)[frameID := p]\<rparr>"

text \<open>
  The two steps of an eviction, in the order of the source: the write-back of the
  victim when it is dirty (the error of \<^verbatim>\<open>WritePage\<close> is dropped, as in the source), then
  the removal of its id from the page table.
\<close>

definition write_back_victim :: "page \<Rightarrow> BufferPoolManager \<Rightarrow> BufferPoolManager" where
  "write_back_victim victimPage b =
     (if IsDirty victimPage
      then b\<lparr>diskManager := snd (WritePage (diskManager b) (ID victimPage) (Data victimPage))\<rparr>
      else b)"

definition unmap_victim :: "page \<Rightarrow> BufferPoolManager \<Rightarrow> BufferPoolManager" where
  "unmap_victim victimPage b = b\<lparr>pageTable := AList.delete (ID victimPage) (pageTable b)\<rparr>"

text \<open>
  \<^verbatim>\<open>findVictimFrame\<close>: \<open>Some (None, b)\<close> is the error "no victim found", \<open>Some (Some f, b')\<close>
  the frame found.
\<close>

definition findVictimFrame :: "BufferPoolManager \<Rightarrow> (nat option \<times> BufferPoolManager) option" where
  "findVictimFrame b =
     (if 0 < length (freeList b)
      then Some (Some (hd (freeList b)), b\<lparr>freeList := tl (freeList b)\<rparr>)
      else case Victim (replacer b) of
        (None, r) \<Rightarrow> Some (None, b\<lparr>replacer := r\<rparr>)
      | (Some frameID, r) \<Rightarrow>
          do {
            let b1 = b\<lparr>replacer := r\<rparr>;
            victimPage \<leftarrow> frame b1 frameID;
            Some (Some frameID, unmap_victim victimPage (write_back_victim victimPage b1))
          })"

text \<open>\<^verbatim>\<open>FetchPage\<close>: the frame of the page returned, or \<open>None\<close> for \<^verbatim>\<open>nil\<close>.\<close>

definition FetchPage :: "BufferPoolManager \<Rightarrow> 32 word \<Rightarrow> (nat option \<times> BufferPoolManager) option" where
  "FetchPage b pageID =
     (case map_of (pageTable b) pageID of
        Some frameID \<Rightarrow>
          do {
            let b1 = b\<lparr>replacer := Pin frameID (replacer b)\<rparr>;
            p \<leftarrow> frame b1 frameID;
            Some (Some frameID, set_frame frameID (p\<lparr>PinCount := PinCount p + 1\<rparr>) b1)
          }
      | None \<Rightarrow>
          do {
            (victim, b1) \<leftarrow> findVictimFrame b;
            case victim of
              None \<Rightarrow> Some (None, b1)
            | Some frameID \<Rightarrow>
                do {
                  p \<leftarrow> frame b1 frameID;
                  let p1 = p\<lparr>ID := pageID, PinCount := 1, IsDirty := False\<rparr>;
                  r \<leftarrow> ReadPage (diskManager b1) pageID;
                  case r of
                    None \<Rightarrow> Some (None, set_frame frameID p1 b1)
                  | Some dat \<Rightarrow>
                      do {
                        let b2 = set_frame frameID (p1\<lparr>Data := dat\<rparr>) b1;
                        let b3 = b2\<lparr>pageTable := AList.update pageID frameID (pageTable b2)\<rparr>;
                        Some (Some frameID, b3\<lparr>replacer := Pin frameID (replacer b3)\<rparr>)
                      }
                }
          })"

text \<open>\<^verbatim>\<open>UnpinPage\<close>: \<open>True\<close> for the \<^verbatim>\<open>nil\<close> error, \<open>False\<close> for one of the two errors.\<close>

definition UnpinPage :: "BufferPoolManager \<Rightarrow> 32 word \<Rightarrow> bool \<Rightarrow> (bool \<times> BufferPoolManager) option" where
  "UnpinPage b pageID dirty =
     (case map_of (pageTable b) pageID of
        None \<Rightarrow> Some (False, b)
      | Some frameID \<Rightarrow>
          do {
            p \<leftarrow> frame b frameID;
            if sint (PinCount p) \<le> 0 then Some (False, b)
            else do {
              let p1 = p\<lparr>PinCount := PinCount p - 1\<rparr>;
              let p2 = (if dirty then p1\<lparr>IsDirty := True\<rparr> else p1);
              let b1 = set_frame frameID p2 b;
              Some (True, if PinCount p2 = 0
                          then b1\<lparr>replacer := Unpin frameID (replacer b1)\<rparr> else b1)
            }
          })"

definition NewPage :: "BufferPoolManager \<Rightarrow> (nat option \<times> BufferPoolManager) option" where
  "NewPage b =
     do {
       (victim, b1) \<leftarrow> findVictimFrame b;
       case victim of
         None \<Rightarrow> Some (None, b1)
       | Some frameID \<Rightarrow>
           do {
             let (newPageID, dm) = AllocatePage (diskManager b1);
             let b2 = b1\<lparr>diskManager := dm\<rparr>;
             p \<leftarrow> frame b2 frameID;
             let p1 = p\<lparr>ID := newPageID, PinCount := 1, IsDirty := False, Data := zero_payload\<rparr>;
             let b3 = set_frame frameID p1 b2;
             let b4 = b3\<lparr>pageTable := AList.update newPageID frameID (pageTable b3)\<rparr>;
             Some (Some frameID, b4\<lparr>replacer := Pin frameID (replacer b4)\<rparr>)
           }
     }"

definition FlushPage :: "BufferPoolManager \<Rightarrow> 32 word \<Rightarrow> (bool \<times> BufferPoolManager) option" where
  "FlushPage b pageID =
     (case map_of (pageTable b) pageID of
        None \<Rightarrow> Some (False, b)
      | Some frameID \<Rightarrow>
          do {
            p \<leftarrow> frame b frameID;
            let b1 = b\<lparr>diskManager := snd (WritePage (diskManager b) pageID (Data p))\<rparr>;
            Some (True, set_frame frameID (p\<lparr>IsDirty := False\<rparr>) b1)
          })"

definition DeletePage :: "BufferPoolManager \<Rightarrow> 32 word \<Rightarrow> (bool \<times> BufferPoolManager) option" where
  "DeletePage b pageID =
     (case map_of (pageTable b) pageID of
        None \<Rightarrow> Some (True, b\<lparr>diskManager := DeallocatePage (diskManager b) pageID\<rparr>)
      | Some frameID \<Rightarrow>
          do {
            targetPage \<leftarrow> frame b frameID;
            if 0 < sint (PinCount targetPage) then Some (False, b)
            else do {
              let b1 = b\<lparr>pageTable := AList.delete pageID (pageTable b)\<rparr>;
              let b2 = b1\<lparr>replacer := Pin frameID (replacer b1)\<rparr>;
              let b3 = b2\<lparr>freeList := freeList b2 @ [frameID]\<rparr>;
              let b4 = set_frame frameID
                         (targetPage\<lparr>ID := InvalidPageID, PinCount := 0, IsDirty := False\<rparr>) b3;
              Some (True, b4\<lparr>diskManager := DeallocatePage (diskManager b4) pageID\<rparr>)
            }
          })"

text \<open>\<^verbatim>\<open>FlushAllPages\<close>: the loop over the frames, one frame at a time.\<close>

definition flush_frame :: "BufferPoolManager \<Rightarrow> nat \<Rightarrow> BufferPoolManager" where
  "flush_frame b i =
     (let p = pages b ! i in
      if ID p \<noteq> InvalidPageID \<and> IsDirty p
      then set_frame i (p\<lparr>IsDirty := False\<rparr>)
             (b\<lparr>diskManager := snd (WritePage (diskManager b) (ID p) (Data p))\<rparr>)
      else b)"

definition FlushAllPages :: "BufferPoolManager \<Rightarrow> BufferPoolManager" where
  "FlushAllPages b = foldl flush_frame b [0..<length (pages b)]"


section \<open>The B+ tree (bptree.go)\<close>

text \<open>
  The tree handle: the buffer pool it works on and the id of its root page.  The
  reader-writer lock serialises the operations and has no part in a sequential run.
\<close>

record BPlusTree =
  bpm :: BufferPoolManager
  rootPageId :: "32 word"

definition NewBPlusTree :: "32 word \<Rightarrow> BufferPoolManager \<Rightarrow> BPlusTree" where
  "NewBPlusTree root b = \<lparr>bpm = b, rootPageId = root\<rparr>"

definition IsEmpty :: "BPlusTree \<Rightarrow> bool" where
  "IsEmpty tree \<longleftrightarrow> rootPageId tree = InvalidPageID"

subsection \<open>Access to the frames through the tree\<close>

text \<open>\<open>node\<close> reads the payload behind a handle, \<open>page_ID\<close> the id field of its page.\<close>

definition node :: "BPlusTree \<Rightarrow> nat \<Rightarrow> payload option" where
  "node tree f = map_option Data (frame (bpm tree) f)"

definition page_ID :: "BPlusTree \<Rightarrow> nat \<Rightarrow> 32 word option" where
  "page_ID tree f = map_option ID (frame (bpm tree) f)"

definition put_node :: "nat \<Rightarrow> payload \<Rightarrow> BPlusTree \<Rightarrow> BPlusTree option" where
  "put_node f d tree =
     do {
       p \<leftarrow> frame (bpm tree) f;
       Some (tree\<lparr>bpm := set_frame f (p\<lparr>Data := d\<rparr>) (bpm tree)\<rparr>)
     }"

text \<open>\<open>modify\<close> applies a setter that may panic, \<open>modify'\<close> one that cannot.\<close>

definition modify :: "nat \<Rightarrow> (payload \<Rightarrow> payload option) \<Rightarrow> BPlusTree \<Rightarrow> BPlusTree option" where
  "modify f g tree = do { d \<leftarrow> node tree f; d' \<leftarrow> g d; put_node f d' tree }"

definition modify' :: "nat \<Rightarrow> (payload \<Rightarrow> payload) \<Rightarrow> BPlusTree \<Rightarrow> BPlusTree option" where
  "modify' f g tree = do { d \<leftarrow> node tree f; put_node f (g d) tree }"

text \<open>
  A layout function on two nodes, applied to two frames.  Two handles of one frame are
  outside the model.
\<close>

definition modify2 ::
  "nat \<Rightarrow> nat \<Rightarrow> (payload \<Rightarrow> payload \<Rightarrow> (payload \<times> payload) option) \<Rightarrow> BPlusTree \<Rightarrow> BPlusTree option" where
  "modify2 fa fb g tree =
     (if fa = fb then None
      else do {
        a \<leftarrow> node tree fa;
        b \<leftarrow> node tree fb;
        (a', b') \<leftarrow> g a b;
        t1 \<leftarrow> put_node fa a' tree;
        put_node fb b' t1
      })"

text \<open>The calls into the buffer pool, with the pool written back into the tree.\<close>

definition fetch :: "BPlusTree \<Rightarrow> 32 word \<Rightarrow> (nat option \<times> BPlusTree) option" where
  "fetch tree pageID = do { (r, b) \<leftarrow> FetchPage (bpm tree) pageID; Some (r, tree\<lparr>bpm := b\<rparr>) }"

definition new_page :: "BPlusTree \<Rightarrow> (nat option \<times> BPlusTree) option" where
  "new_page tree = do { (r, b) \<leftarrow> NewPage (bpm tree); Some (r, tree\<lparr>bpm := b\<rparr>) }"

definition unpin :: "32 word \<Rightarrow> bool \<Rightarrow> BPlusTree \<Rightarrow> BPlusTree option" where
  "unpin pageID dirty tree =
     do { (r, b) \<leftarrow> UnpinPage (bpm tree) pageID dirty; Some (tree\<lparr>bpm := b\<rparr>) }"

definition delete_page :: "32 word \<Rightarrow> BPlusTree \<Rightarrow> BPlusTree option" where
  "delete_page pageID tree =
     do { (r, b) \<leftarrow> DeletePage (bpm tree) pageID; Some (tree\<lparr>bpm := b\<rparr>) }"

subsection \<open>Lookup\<close>

text \<open>\<^verbatim>\<open>StartNewTree\<close> panics (\<open>None\<close>) when the pool has no frame for the root.\<close>

definition StartNewTree :: "BPlusTree \<Rightarrow> BPlusTree option" where
  "StartNewTree tree =
     do {
       (r, t1) \<leftarrow> new_page tree;
       case r of
         None \<Rightarrow> None
       | Some p \<Rightarrow>
           do {
             pid \<leftarrow> page_ID t1 p;
             t2 \<leftarrow> modify' p (Init pid KindLeaf 0) t1;
             pid' \<leftarrow> page_ID t2 p;
             unpin pid True (t2\<lparr>rootPageId := pid'\<rparr>)
           }
     }"

text \<open>
  The inner loop of \<^verbatim>\<open>FindLeafPage\<close>, from the last slot down: \<open>Some (Some c)\<close> is the
  child of the first slot met whose key is at most the search key, \<open>Some None\<close> stands
  for \<^verbatim>\<open>found == false\<close>.
\<close>

function FindLeafPage_scan :: "payload \<Rightarrow> 64 word \<Rightarrow> int \<Rightarrow> 32 word option option" where
  "FindLeafPage_scan nd key i =
     (if 0 \<le> i then
        do {
          k \<leftarrow> GetKey nd i;
          if k \<le>s key then map_option Some (GetValueAsPageID nd i)
          else FindLeafPage_scan nd key (i - 1)
        }
      else Some None)"
  by pat_completeness auto
termination
  by (relation "measure (\<lambda>(nd, key, i). nat (i + 1))") auto

text \<open>
  The descent, one level for each unit of fuel.  The result is the handle of the leaf,
  still pinned, or \<open>None\<close> for \<^verbatim>\<open>nil\<close>.
\<close>

fun FindLeafPage_loop :: "nat \<Rightarrow> BPlusTree \<Rightarrow> nat \<Rightarrow> 64 word \<Rightarrow> (nat option \<times> BPlusTree) option" where
  "FindLeafPage_loop 0 tree currPage key = None"
| "FindLeafPage_loop (Suc fuel) tree currPage key =
     do {
       nd \<leftarrow> node tree currPage;
       if IsLeaf nd then Some (Some currPage, tree)
       else do {
         let count = GetCount nd;
         found \<leftarrow> FindLeafPage_scan nd key (count - 1);
         childPageId \<leftarrow> (case found of
                           Some c \<Rightarrow> Some c
                         | None \<Rightarrow> if 0 < count then GetValueAsPageID nd 0 else Some 0);
         pid \<leftarrow> page_ID tree currPage;
         t1 \<leftarrow> unpin pid False tree;
         (r, t2) \<leftarrow> fetch t1 childPageId;
         case r of
           None \<Rightarrow> Some (None, t2)
         | Some child \<Rightarrow> FindLeafPage_loop fuel t2 child key
       }
     }"

definition FindLeafPage :: "nat \<Rightarrow> BPlusTree \<Rightarrow> 64 word \<Rightarrow> (nat option \<times> BPlusTree) option" where
  "FindLeafPage fuel tree key =
     (if rootPageId tree = InvalidPageID then Some (None, tree)
      else do {
        (r, t1) \<leftarrow> fetch tree (rootPageId tree);
        case r of
          None \<Rightarrow> Some (None, t1)
        | Some currPage \<Rightarrow> FindLeafPage_loop fuel t1 currPage key
      })"

text \<open>Go's \<^verbatim>\<open>bytes.TrimRight(b, "\x00")\<close>.\<close>

definition TrimRight :: "byte list \<Rightarrow> byte list" where
  "TrimRight bs = rev (dropWhile (\<lambda>b. b = 0) (rev bs))"

function GetValue_scan :: "payload \<Rightarrow> 64 word \<Rightarrow> int \<Rightarrow> int \<Rightarrow> byte list option option" where
  "GetValue_scan leaf key count i =
     (if i < count then
        do {
          k \<leftarrow> GetKey leaf i;
          if k = key then map_option (\<lambda>v. Some (TrimRight v)) (GetValue leaf i)
          else GetValue_scan leaf key count (i + 1)
        }
      else Some None)"
  by pat_completeness auto
termination
  by (relation "measure (\<lambda>(leaf, key, count, i). nat (count - i))") auto

text \<open>
  \<^verbatim>\<open>BPlusTree.GetValue\<close>: \<open>Some v\<close> for \<^verbatim>\<open>(v, true)\<close>, \<open>None\<close> for \<^verbatim>\<open>(nil, false)\<close>.  The
  deferred unpin runs after the result is computed, with the page id read when it was
  deferred.
\<close>

definition GetValue_tree :: "nat \<Rightarrow> BPlusTree \<Rightarrow> 64 word \<Rightarrow> (byte list option \<times> BPlusTree) option" where
  "GetValue_tree fuel tree key =
     (if IsEmpty tree then Some (None, tree)
      else do {
        (r, t1) \<leftarrow> FindLeafPage fuel tree key;
        case r of
          None \<Rightarrow> Some (None, t1)
        | Some leafPage \<Rightarrow>
            do {
              pid \<leftarrow> page_ID t1 leafPage;
              leaf \<leftarrow> node t1 leafPage;
              res \<leftarrow> GetValue_scan leaf key (GetCount leaf) 0;
              t2 \<leftarrow> unpin pid False t1;
              Some (res, t2)
            }
      })"


subsection \<open>Insertion\<close>

function insertInternal_scan :: "payload \<Rightarrow> 64 word \<Rightarrow> int \<Rightarrow> int \<Rightarrow> int option" where
  "insertInternal_scan nd key count i =
     (if i < count then
        do {
          k \<leftarrow> GetKey nd i;
          if key <s k then Some i else insertInternal_scan nd key count (i + 1)
        }
      else Some count)"
  by pat_completeness auto
termination
  by (relation "measure (\<lambda>(nd, key, count, i). nat (count - i))") auto

function insertInternal_shift :: "int \<Rightarrow> int \<Rightarrow> payload \<Rightarrow> payload option" where
  "insertInternal_shift i insertIdx nd =
     (if insertIdx < i then
        do {
          k \<leftarrow> GetKey nd (i - 1);
          n1 \<leftarrow> SetKey i k nd;
          c \<leftarrow> GetValueAsPageID n1 (i - 1);
          n2 \<leftarrow> SetValueAsPageID i c n1;
          insertInternal_shift (i - 1) insertIdx n2
        }
      else Some nd)"
  by pat_completeness auto
termination
  by (relation "measure (\<lambda>(i, insertIdx, nd). nat (i - insertIdx))") auto

definition insertInternal :: "64 word \<Rightarrow> 32 word \<Rightarrow> payload \<Rightarrow> payload option" where
  "insertInternal key pageID nd =
     (let count = GetCount nd in
      do {
        insertIdx \<leftarrow> insertInternal_scan nd key count 0;
        n1 \<leftarrow> insertInternal_shift count insertIdx nd;
        n2 \<leftarrow> SetKey insertIdx key n1;
        n3 \<leftarrow> SetValueAsPageID insertIdx pageID n2;
        Some (SetCount (count + 1) n3)
      })"

text \<open>
  The loop of \<^verbatim>\<open>InsertIntoParent\<close> that moves the upper half of a full parent to its new
  sibling and fetches every moved child to rewrite its parent id.
\<close>

function InsertIntoParent_move ::
  "int \<Rightarrow> int \<Rightarrow> int \<Rightarrow> nat \<Rightarrow> nat \<Rightarrow> BPlusTree \<Rightarrow> BPlusTree option" where
  "InsertIntoParent_move i moveCount splitIdx parentNode parentSibling tree =
     (if i < moveCount then
        do {
          let srcIdx = splitIdx + i;
          pn \<leftarrow> node tree parentNode;
          k \<leftarrow> GetKey pn srcIdx;
          t1 \<leftarrow> modify parentSibling (SetKey i k) tree;
          pn1 \<leftarrow> node t1 parentNode;
          c \<leftarrow> GetValueAsPageID pn1 srcIdx;
          t2 \<leftarrow> modify parentSibling (SetValueAsPageID i c) t1;
          pn2 \<leftarrow> node t2 parentNode;
          childPageId \<leftarrow> GetValueAsPageID pn2 srcIdx;
          (r, t3) \<leftarrow> fetch t2 childPageId;
          t4 \<leftarrow> (case r of
                  None \<Rightarrow> Some t3
                | Some childPageRaw \<Rightarrow>
                    do {
                      ps \<leftarrow> node t3 parentSibling;
                      t' \<leftarrow> modify' childPageRaw (SetParentID (GetPageID ps)) t3;
                      cid \<leftarrow> page_ID t' childPageRaw;
                      unpin cid True t'
                    });
          InsertIntoParent_move (i + 1) moveCount splitIdx parentNode parentSibling t4
        }
      else Some tree)"
  by pat_completeness auto
termination
  by (relation "measure (\<lambda>(i, moveCount, splitIdx, parentNode, parentSibling, tree). nat (moveCount - i))")
    auto

text \<open>
  \<^verbatim>\<open>InsertIntoParent\<close>, one level of the tree for each unit of fuel.  \<^verbatim>\<open>NewPage\<close> for the
  sibling of a full parent is not checked for \<^verbatim>\<open>nil\<close>: wrapping \<^verbatim>\<open>nil\<close> panics.
\<close>

fun InsertIntoParent :: "nat \<Rightarrow> BPlusTree \<Rightarrow> nat \<Rightarrow> 64 word \<Rightarrow> nat \<Rightarrow> BPlusTree option" where
  "InsertIntoParent 0 tree oldNode key newNode = None"
| "InsertIntoParent (Suc fuel) tree oldNode key newNode =
     do {
       old \<leftarrow> node tree oldNode;
       if GetPageID old = rootPageId tree then
         do {
           (r, t1) \<leftarrow> new_page tree;
           case r of
             None \<Rightarrow> Some t1
           | Some newRootPageRaw \<Rightarrow>
               do {
                 rid \<leftarrow> page_ID t1 newRootPageRaw;
                 t2 \<leftarrow> modify' newRootPageRaw (Init rid KindInternal 0) t1;
                 t3 \<leftarrow> modify' newRootPageRaw (SetCount 2) t2;
                 old3 \<leftarrow> node t3 oldNode;
                 k0 \<leftarrow> GetKey old3 0;
                 t4 \<leftarrow> modify newRootPageRaw (SetKey 0 k0) t3;
                 old4 \<leftarrow> node t4 oldNode;
                 t5 \<leftarrow> modify newRootPageRaw (SetValueAsPageID 0 (GetPageID old4)) t4;
                 t6 \<leftarrow> modify newRootPageRaw (SetKey 1 key) t5;
                 new6 \<leftarrow> node t6 newNode;
                 t7 \<leftarrow> modify newRootPageRaw (SetValueAsPageID 1 (GetPageID new6)) t6;
                 rid7 \<leftarrow> page_ID t7 newRootPageRaw;
                 let t8 = t7\<lparr>rootPageId := rid7\<rparr>;
                 root8 \<leftarrow> node t8 newRootPageRaw;
                 t9 \<leftarrow> modify' oldNode (SetParentID (GetPageID root8)) t8;
                 root9 \<leftarrow> node t9 newRootPageRaw;
                 t10 \<leftarrow> modify' newNode (SetParentID (GetPageID root9)) t9;
                 rid10 \<leftarrow> page_ID t10 newRootPageRaw;
                 unpin rid10 True t10
               }
         }
       else
         do {
           let parentId = GetParentID old;
           (r, t1) \<leftarrow> fetch tree parentId;
           case r of
             None \<Rightarrow> Some t1
           | Some parentPageRaw \<Rightarrow>
               do {
                 parent \<leftarrow> node t1 parentPageRaw;
                 t2 \<leftarrow> (if IsFull parent then
                          do {
                            (r2, u1) \<leftarrow> new_page t1;
                            case r2 of
                              None \<Rightarrow> None
                            | Some newParentSiblingRaw \<Rightarrow>
                                do {
                                  sid \<leftarrow> page_ID u1 newParentSiblingRaw;
                                  parent1 \<leftarrow> node u1 parentPageRaw;
                                  u2 \<leftarrow> modify' newParentSiblingRaw
                                         (Init sid KindInternal (GetParentID parent1)) u1;
                                  parent2 \<leftarrow> node u2 parentPageRaw;
                                  let count = GetCount parent2;
                                  let splitIdx = count sdiv 2;
                                  let moveCount = count - splitIdx;
                                  u3 \<leftarrow> InsertIntoParent_move 0 moveCount splitIdx
                                         parentPageRaw newParentSiblingRaw u2;
                                  u4 \<leftarrow> modify' newParentSiblingRaw (SetCount moveCount) u3;
                                  u5 \<leftarrow> modify' parentPageRaw (SetCount splitIdx) u4;
                                  sibling5 \<leftarrow> node u5 newParentSiblingRaw;
                                  sk \<leftarrow> GetKey sibling5 0;
                                  let targetNode = (if sk \<le>s key then newParentSiblingRaw
                                                    else parentPageRaw);
                                  new5 \<leftarrow> node u5 newNode;
                                  u6 \<leftarrow> modify targetNode (insertInternal key (GetPageID new5)) u5;
                                  sibling6 \<leftarrow> node u6 newParentSiblingRaw;
                                  newSplitKey \<leftarrow> GetKey sibling6 0;
                                  u7 \<leftarrow> InsertIntoParent fuel u6 parentPageRaw newSplitKey
                                         newParentSiblingRaw;
                                  sid7 \<leftarrow> page_ID u7 newParentSiblingRaw;
                                  unpin sid7 True u7
                                }
                          }
                        else
                          do {
                            new1 \<leftarrow> node t1 newNode;
                            modify parentPageRaw (insertInternal key (GetPageID new1)) t1
                          });
                 pid \<leftarrow> page_ID t2 parentPageRaw;
                 unpin pid True t2
               }
         }
     }"

text \<open>
  \<^verbatim>\<open>Insert\<close>.  On an empty tree the result of \<^verbatim>\<open>InsertLeaf\<close> is dropped and the deferred
  unpin of the root runs last.  On a full leaf the result of \<^verbatim>\<open>InsertLeaf\<close> is dropped
  as well, and the function returns true.
\<close>

definition Insert :: "nat \<Rightarrow> BPlusTree \<Rightarrow> 64 word \<Rightarrow> byte list \<Rightarrow> (bool \<times> BPlusTree) option" where
  "Insert fuel tree key val =
     (if IsEmpty tree then
        do {
          t1 \<leftarrow> StartNewTree tree;
          (r, t2) \<leftarrow> fetch t1 (rootPageId t1);
          case r of
            None \<Rightarrow> Some (False, t2)
          | Some rootPage \<Rightarrow>
              do {
                pid \<leftarrow> page_ID t2 rootPage;
                t3 \<leftarrow> modify rootPage (\<lambda>d. map_option snd (InsertLeaf key val d)) t2;
                t4 \<leftarrow> unpin pid True t3;
                Some (True, t4)
              }
        }
      else
        do {
          (r, t1) \<leftarrow> FindLeafPage fuel tree key;
          case r of
            None \<Rightarrow> Some (False, t1)
          | Some leafPageRaw \<Rightarrow>
              do {
                leafNode \<leftarrow> node t1 leafPageRaw;
                if IsFull leafNode then
                  do {
                    (r2, t2) \<leftarrow> new_page t1;
                    case r2 of
                      None \<Rightarrow>
                        do {
                          lid \<leftarrow> page_ID t2 leafPageRaw;
                          t3 \<leftarrow> unpin lid False t2;
                          Some (False, t3)
                        }
                    | Some newPageRaw \<Rightarrow>
                        do {
                          nid \<leftarrow> page_ID t2 newPageRaw;
                          leaf2 \<leftarrow> node t2 leafPageRaw;
                          t3 \<leftarrow> modify' newPageRaw
                                 (Init nid (GetPageType leaf2) (GetParentID leaf2)) t2;
                          leaf3 \<leftarrow> node t3 leafPageRaw;
                          t4 \<leftarrow> modify' newPageRaw (SetNextPageID (GetNextPageID leaf3)) t3;
                          sibling4 \<leftarrow> node t4 newPageRaw;
                          t5 \<leftarrow> modify' leafPageRaw (SetNextPageID (GetPageID sibling4)) t4;
                          t6 \<leftarrow> modify2 leafPageRaw newPageRaw MoveHalfTo t5;
                          sibling6 \<leftarrow> node t6 newPageRaw;
                          sk \<leftarrow> GetKey sibling6 0;
                          t7 \<leftarrow> (if sk \<le>s key
                                  then modify newPageRaw
                                         (\<lambda>d. map_option snd (InsertLeaf key val d)) t6
                                  else modify leafPageRaw
                                         (\<lambda>d. map_option snd (InsertLeaf key val d)) t6);
                          sibling7 \<leftarrow> node t7 newPageRaw;
                          splitKey \<leftarrow> GetKey sibling7 0;
                          t8 \<leftarrow> InsertIntoParent fuel t7 leafPageRaw splitKey newPageRaw;
                          nid8 \<leftarrow> page_ID t8 newPageRaw;
                          t9 \<leftarrow> unpin nid8 True t8;
                          lid9 \<leftarrow> page_ID t9 leafPageRaw;
                          t10 \<leftarrow> unpin lid9 True t9;
                          Some (True, t10)
                        }
                  }
                else
                  do {
                    (success, leaf') \<leftarrow> InsertLeaf key val leafNode;
                    t2 \<leftarrow> put_node leafPageRaw leaf' t1;
                    lid \<leftarrow> page_ID t2 leafPageRaw;
                    t3 \<leftarrow> unpin lid True t2;
                    Some (success, t3)
                  }
              }
        })"


subsection \<open>Deletion\<close>

text \<open>
  \<^verbatim>\<open>adjustRoot\<close>.  Wrapping a \<^verbatim>\<open>nil\<close> page panics, here and below, since no caller checks
  the page a fetch returns.
\<close>

definition adjustRoot :: "BPlusTree \<Rightarrow> nat \<Rightarrow> BPlusTree option" where
  "adjustRoot tree oldRoot =
     do {
       rt \<leftarrow> node tree oldRoot;
       if IsLeaf rt \<and> GetCount rt = 0 then
         do {
           let t1 = tree\<lparr>rootPageId := InvalidPageID\<rparr>;
           rt1 \<leftarrow> node t1 oldRoot;
           delete_page (GetPageID rt1) t1
         }
       else if \<not> IsLeaf rt \<and> GetCount rt = 1 then
         do {
           childId \<leftarrow> GetValueAsPageID rt 0;
           (r, t1) \<leftarrow> fetch tree childId;
           childPage \<leftarrow> r;
           t2 \<leftarrow> modify' childPage (SetParentID 0) t1;
           cid \<leftarrow> page_ID t2 childPage;
           let t3 = t2\<lparr>rootPageId := cid\<rparr>;
           cid3 \<leftarrow> page_ID t3 childPage;
           t4 \<leftarrow> unpin cid3 True t3;
           rt4 \<leftarrow> node t4 oldRoot;
           delete_page (GetPageID rt4) t4
         }
       else unpin (GetPageID rt) True tree
     }"

definition redistribute :: "BPlusTree \<Rightarrow> nat \<Rightarrow> nat \<Rightarrow> nat \<Rightarrow> int \<Rightarrow> bool \<Rightarrow> BPlusTree option" where
  "redistribute tree sibling nd parent idxInParent isLeftSibling =
     (if isLeftSibling then
        do {
          t1 \<leftarrow> modify2 sibling nd MoveLastToFrontOf tree;
          n1 \<leftarrow> node t1 nd;
          k \<leftarrow> GetKey n1 0;
          t2 \<leftarrow> modify parent (SetKey idxInParent k) t1;
          n2 \<leftarrow> node t2 nd;
          if \<not> IsLeaf n2 then
            do {
              childId \<leftarrow> GetValueAsPageID n2 0;
              (r, t3) \<leftarrow> fetch t2 childId;
              childPage \<leftarrow> r;
              n3 \<leftarrow> node t3 nd;
              t4 \<leftarrow> modify' childPage (SetParentID (GetPageID n3)) t3;
              cid \<leftarrow> page_ID t4 childPage;
              unpin cid True t4
            }
          else Some t2
        }
      else
        do {
          t1 \<leftarrow> modify2 sibling nd MoveFirstToEndOf tree;
          s1 \<leftarrow> node t1 sibling;
          k \<leftarrow> GetKey s1 0;
          t2 \<leftarrow> modify parent (SetKey (idxInParent + 1) k) t1;
          n2 \<leftarrow> node t2 nd;
          if \<not> IsLeaf n2 then
            do {
              childId \<leftarrow> GetValueAsPageID n2 (GetCount n2 - 1);
              (r, t3) \<leftarrow> fetch t2 childId;
              childPage \<leftarrow> r;
              n3 \<leftarrow> node t3 nd;
              t4 \<leftarrow> modify' childPage (SetParentID (GetPageID n3)) t3;
              cid \<leftarrow> page_ID t4 childPage;
              unpin cid True t4
            }
          else Some t2
        })"

text \<open>
  The loop of \<^verbatim>\<open>coalesceOrRedistribute\<close> that looks the node up among the children of its
  parent; the result is \<open>-1\<close> when it is not there.
\<close>

function idxInParent_scan :: "payload \<Rightarrow> 32 word \<Rightarrow> int \<Rightarrow> int \<Rightarrow> int option" where
  "idxInParent_scan parentNode pid parentCount i =
     (if i < parentCount then
        do {
          c \<leftarrow> GetValueAsPageID parentNode i;
          if c = pid then Some i else idxInParent_scan parentNode pid parentCount (i + 1)
        }
      else Some (- 1))"
  by pat_completeness auto
termination
  by (relation "measure (\<lambda>(parentNode, pid, parentCount, i). nat (parentCount - i))") auto

text \<open>
  The loop of \<^verbatim>\<open>coalesce\<close> over the children of the merged internal node: each child is
  fetched, gets the parent id of the left node when it has another one, and is unpinned.
\<close>

function coalesce_children :: "int \<Rightarrow> int \<Rightarrow> nat \<Rightarrow> BPlusTree \<Rightarrow> BPlusTree option" where
  "coalesce_children i count left tree =
     (if i < count then
        do {
          lf \<leftarrow> node tree left;
          childId \<leftarrow> GetValueAsPageID lf i;
          (r, t1) \<leftarrow> fetch tree childId;
          childPage \<leftarrow> r;
          child \<leftarrow> node t1 childPage;
          lf1 \<leftarrow> node t1 left;
          t3 \<leftarrow> (if GetParentID child \<noteq> GetPageID lf1 then
                   do {
                     t2 \<leftarrow> modify' childPage (SetParentID (GetPageID lf1)) t1;
                     cid \<leftarrow> page_ID t2 childPage;
                     unpin cid True t2
                   }
                 else
                   do {
                     cid \<leftarrow> page_ID t1 childPage;
                     unpin cid False t1
                   });
          coalesce_children (i + 1) count left t3
        }
      else Some tree)"
  by pat_completeness auto
termination
  by (relation "measure (\<lambda>(i, count, left, tree). nat (count - i))") auto

text \<open>
  \<^verbatim>\<open>coalesceOrRedistribute\<close> and \<^verbatim>\<open>coalesce\<close> call each other, one level up the tree for
  each unit of fuel.
\<close>

function (sequential) coalesceOrRedistribute :: "nat \<Rightarrow> BPlusTree \<Rightarrow> nat \<Rightarrow> BPlusTree option"
  and coalesce :: "nat \<Rightarrow> BPlusTree \<Rightarrow> nat \<Rightarrow> nat \<Rightarrow> nat \<Rightarrow> int \<Rightarrow> BPlusTree option" where
  "coalesceOrRedistribute 0 tree nd = None"
| "coalesceOrRedistribute (Suc fuel) tree nd =
     do {
       n0 \<leftarrow> node tree nd;
       if GetPageID n0 = rootPageId tree then adjustRoot tree nd
       else
         do {
           let parentId = GetParentID n0;
           (r, t1) \<leftarrow> fetch tree parentId;
           parentPageRaw \<leftarrow> r;
           parentNode \<leftarrow> node t1 parentPageRaw;
           n1 \<leftarrow> node t1 nd;
           idxInParent \<leftarrow> idxInParent_scan parentNode (GetPageID n1) (GetCount parentNode) 0;
           let siblingIdx = (if 0 < idxInParent then idxInParent - 1 else idxInParent + 1);
           siblingId \<leftarrow> GetValueAsPageID parentNode siblingIdx;
           (r2, t2) \<leftarrow> fetch t1 siblingId;
           siblingPageRaw \<leftarrow> r2;
           siblingNode \<leftarrow> node t2 siblingPageRaw;
           if MinDegree siblingNode < GetCount siblingNode then
             do {
               let isLeftSibling = (siblingIdx < idxInParent);
               t3 \<leftarrow> redistribute t2 siblingPageRaw nd parentPageRaw idxInParent isLeftSibling;
               sid \<leftarrow> page_ID t3 siblingPageRaw;
               t4 \<leftarrow> unpin sid True t3;
               pid \<leftarrow> page_ID t4 parentPageRaw;
               t5 \<leftarrow> unpin pid True t4;
               n5 \<leftarrow> node t5 nd;
               unpin (GetPageID n5) True t5
             }
           else
             do {
               t5 \<leftarrow> (if siblingIdx < idxInParent then
                        do {
                          t3 \<leftarrow> coalesce fuel t2 siblingPageRaw nd parentPageRaw idxInParent;
                          sid \<leftarrow> page_ID t3 siblingPageRaw;
                          unpin sid True t3
                        }
                      else
                        do {
                          t3 \<leftarrow> coalesce fuel t2 nd siblingPageRaw parentPageRaw siblingIdx;
                          n3 \<leftarrow> node t3 nd;
                          unpin (GetPageID n3) True t3
                        });
               pid \<leftarrow> page_ID t5 parentPageRaw;
               unpin pid True t5
             }
         }
     }"
| "coalesce fuel tree left right parent rightIdxInParent =
     do {
       t1 \<leftarrow> modify2 right left (MoveAllTo 0) tree;
       lf \<leftarrow> node t1 left;
       t2 \<leftarrow> (if IsLeaf lf then
                do {
                  rt \<leftarrow> node t1 right;
                  modify' left (SetNextPageID (GetNextPageID rt)) t1
                }
              else coalesce_children 0 (GetCount lf) left t1);
       t3 \<leftarrow> modify parent (Remove rightIdxInParent) t2;
       rt3 \<leftarrow> node t3 right;
       t4 \<leftarrow> delete_page (GetPageID rt3) t3;
       pn \<leftarrow> node t4 parent;
       if GetCount pn < MinDegree pn then coalesceOrRedistribute fuel t4 parent
       else Some t4
     }"
  by pat_completeness auto
termination
  by (relation "measure (\<lambda>x. case x of Inl (fuel, tree, nd) \<Rightarrow> 2 * fuel
                                      | Inr (fuel, tree, left, right, parent, idx) \<Rightarrow> 2 * fuel + 1)")
    auto

text \<open>
  The loop of \<^verbatim>\<open>BPlusTree.Remove\<close> over the slots of the leaf: the leaf with the slot of
  the key removed, or \<open>Some None\<close> when the key is not in the leaf.
\<close>

function Remove_scan :: "payload \<Rightarrow> 64 word \<Rightarrow> int \<Rightarrow> int \<Rightarrow> payload option option" where
  "Remove_scan leafNode key count i =
     (if i < count then
        do {
          k \<leftarrow> GetKey leafNode i;
          if k = key then map_option Some (Remove i leafNode)
          else Remove_scan leafNode key count (i + 1)
        }
      else Some None)"
  by pat_completeness auto
termination
  by (relation "measure (\<lambda>(leafNode, key, count, i). nat (count - i))") auto

definition Remove_tree :: "nat \<Rightarrow> BPlusTree \<Rightarrow> 64 word \<Rightarrow> (bool \<times> BPlusTree) option" where
  "Remove_tree fuel tree key =
     (if IsEmpty tree then Some (False, tree)
      else do {
        (r, t1) \<leftarrow> FindLeafPage fuel tree key;
        case r of
          None \<Rightarrow> Some (False, t1)
        | Some leafPageRaw \<Rightarrow>
            do {
              leafNode \<leftarrow> node t1 leafPageRaw;
              found \<leftarrow> Remove_scan leafNode key (GetCount leafNode) 0;
              case found of
                None \<Rightarrow>
                  do {
                    lid \<leftarrow> page_ID t1 leafPageRaw;
                    t2 \<leftarrow> unpin lid False t1;
                    Some (False, t2)
                  }
              | Some leaf' \<Rightarrow>
                  do {
                    t2 \<leftarrow> put_node leafPageRaw leaf' t1;
                    leaf2 \<leftarrow> node t2 leafPageRaw;
                    if GetPageID leaf2 = rootPageId t2 then
                      do {
                        let t3 = (if GetCount leaf2 = 0
                                  then t2\<lparr>rootPageId := InvalidPageID\<rparr> else t2);
                        lid \<leftarrow> page_ID t3 leafPageRaw;
                        t4 \<leftarrow> unpin lid True t3;
                        Some (True, t4)
                      }
                    else if GetCount leaf2 < MinDegree leaf2 then
                      do {
                        t3 \<leftarrow> coalesceOrRedistribute fuel t2 leafPageRaw;
                        Some (True, t3)
                      }
                    else
                      do {
                        lid \<leftarrow> page_ID t2 leafPageRaw;
                        t3 \<leftarrow> unpin lid True t2;
                        Some (True, t3)
                      }
                  }
            }
      })"

section \<open>The iterator\<close>

text \<open>
  The iterator holds the handle of the leaf it has pinned, or \<^verbatim>\<open>nil\<close>, and a slot index.
  Its operations work on the buffer pool that the tree uses.
\<close>

record TreeIterator =
  currPage :: "nat option"
  currIdx :: "32 word"

definition NewTreeIterator :: "nat \<Rightarrow> 32 word \<Rightarrow> TreeIterator" where
  "NewTreeIterator pg idx = \<lparr>currPage = Some pg, currIdx = idx\<rparr>"

text \<open>The descent of \<^verbatim>\<open>Begin\<close> along the first child, one level for each unit of fuel.\<close>

fun Begin_loop :: "nat \<Rightarrow> BPlusTree \<Rightarrow> nat \<Rightarrow> (TreeIterator option \<times> BPlusTree) option" where
  "Begin_loop 0 tree currNode = None"
| "Begin_loop (Suc fuel) tree currNode =
     do {
       cur \<leftarrow> node tree currNode;
       if IsLeaf cur then Some (Some (NewTreeIterator currNode 0), tree)
       else do {
         childPageId \<leftarrow> GetValueAsPageID cur 0;
         t1 \<leftarrow> unpin (GetPageID cur) False tree;
         (r, t2) \<leftarrow> fetch t1 childPageId;
         case r of
           None \<Rightarrow> Some (None, t2)
         | Some child \<Rightarrow> Begin_loop fuel t2 child
       }
     }"

definition Begin :: "nat \<Rightarrow> BPlusTree \<Rightarrow> (TreeIterator option \<times> BPlusTree) option" where
  "Begin fuel tree =
     (if rootPageId tree = InvalidPageID then Some (None, tree)
      else do {
        (r, t1) \<leftarrow> fetch tree (rootPageId tree);
        case r of
          None \<Rightarrow> Some (None, t1)
        | Some pageRaw \<Rightarrow> Begin_loop fuel t1 pageRaw
      })"

definition Key :: "BufferPoolManager \<Rightarrow> TreeIterator \<Rightarrow> 64 word option" where
  "Key b it =
     (case currPage it of
        None \<Rightarrow> Some (- 1)
      | Some pg \<Rightarrow> do { p \<leftarrow> frame b pg; GetKey (Data p) (sint (currIdx it)) })"

text \<open>\<^verbatim>\<open>Value\<close>: \<open>Some None\<close> is the result \<^verbatim>\<open>nil\<close>.\<close>

definition Value :: "BufferPoolManager \<Rightarrow> TreeIterator \<Rightarrow> byte list option option" where
  "Value b it =
     (case currPage it of
        None \<Rightarrow> Some None
      | Some pg \<Rightarrow> do { p \<leftarrow> frame b pg; map_option Some (GetValue (Data p) (sint (currIdx it))) })"

definition Next :: "BufferPoolManager \<Rightarrow> TreeIterator \<Rightarrow> (bool \<times> TreeIterator \<times> BufferPoolManager) option" where
  "Next b it =
     (case currPage it of
        None \<Rightarrow> Some (False, it, b)
      | Some pg \<Rightarrow>
          do {
            let it1 = it\<lparr>currIdx := currIdx it + 1\<rparr>;
            p \<leftarrow> frame b pg;
            if sint (currIdx it1) < GetCount (Data p) then Some (True, it1, b)
            else do {
              let nextPageId = GetNextPageID (Data p);
              (u, b1) \<leftarrow> UnpinPage b (GetPageID (Data p)) False;
              if nextPageId = 0 then Some (False, it1\<lparr>currPage := None\<rparr>, b1)
              else do {
                (r, b2) \<leftarrow> FetchPage b1 nextPageId;
                case r of
                  None \<Rightarrow> Some (False, it1\<lparr>currPage := None\<rparr>, b2)
                | Some rawPage \<Rightarrow> Some (True, it1\<lparr>currPage := Some rawPage, currIdx := 0\<rparr>, b2)
              }
            }
          })"

definition Close :: "BufferPoolManager \<Rightarrow> TreeIterator \<Rightarrow> (TreeIterator \<times> BufferPoolManager) option" where
  "Close b it =
     (case currPage it of
        None \<Rightarrow> Some (it, b)
      | Some pg \<Rightarrow>
          do {
            p \<leftarrow> frame b pg;
            (u, b1) \<leftarrow> UnpinPage b (GetPageID (Data p)) False;
            Some (it\<lparr>currPage := None\<rparr>, b1)
          })"

definition IsValid :: "TreeIterator \<Rightarrow> bool" where
  "IsValid it \<longleftrightarrow> currPage it \<noteq> None"


section \<open>States and runs of the buffer pool\<close>

text \<open>
  The frames the pool can still hand out: those on the free list, those the page table
  maps a page to, and those in the replacer.
\<close>

definition tracked :: "BufferPoolManager \<Rightarrow> nat set" where
  "tracked b = set (freeList b) \<union> ran (map_of (pageTable b)) \<union> set (lru_list (replacer b))"

text \<open>
  The bookkeeping of a pool agrees with its frames: no frame is twice on the free list or
  twice in the replacer, or in both; a frame the page table maps a page id to is not on
  the free list and holds that id; a frame in the replacer is the one the page table maps
  its id to; and every frame index is inside the array.
\<close>

definition pool_consistent :: "BufferPoolManager \<Rightarrow> bool" where
  "pool_consistent b \<longleftrightarrow>
     distinct (freeList b) \<and> distinct (lru_list (replacer b)) \<and>
     set (freeList b) \<inter> set (lru_list (replacer b)) = {} \<and>
     (\<forall>pid f. map_of (pageTable b) pid = Some f \<longrightarrow>
        f \<notin> set (freeList b) \<and> f < length (pages b) \<and> ID (pages b ! f) = pid) \<and>
     (\<forall>f \<in> set (lru_list (replacer b)). map_of (pageTable b) (ID (pages b ! f)) = Some f) \<and>
     (\<forall>f \<in> set (freeList b). f < length (pages b))"

text \<open>
  The calls a client can make on the pool.  \<open>run_call\<close> returns the frame a call hands
  out, if it hands one out, and the pool; \<open>run_calls\<close> runs a list of calls.
\<close>

datatype pool_call =
  CallFetchPage "32 word"
| CallUnpinPage "32 word" bool
| CallNewPage
| CallFlushPage "32 word"
| CallDeletePage "32 word"
| CallFlushAllPages

fun run_call :: "pool_call \<Rightarrow> BufferPoolManager \<Rightarrow> (nat option \<times> BufferPoolManager) option" where
  "run_call (CallFetchPage pid) b = FetchPage b pid"
| "run_call (CallUnpinPage pid dirty) b = map_option (\<lambda>(r, b'). (None, b')) (UnpinPage b pid dirty)"
| "run_call CallNewPage b = NewPage b"
| "run_call (CallFlushPage pid) b = map_option (\<lambda>(r, b'). (None, b')) (FlushPage b pid)"
| "run_call (CallDeletePage pid) b = map_option (\<lambda>(r, b'). (None, b')) (DeletePage b pid)"
| "run_call CallFlushAllPages b = Some (None, FlushAllPages b)"

fun run_calls :: "pool_call list \<Rightarrow> BufferPoolManager \<Rightarrow> (nat option list \<times> BufferPoolManager) option" where
  "run_calls [] b = Some ([], b)"
| "run_calls (c # cs) b =
     do {
       (r, b1) \<leftarrow> run_call c b;
       (rs, b2) \<leftarrow> run_calls cs b1;
       Some (r # rs, b2)
     }"

text \<open>
  A pool of one frame after \<^verbatim>\<open>NewPage\<close> and \<^verbatim>\<open>UnpinPage(0, true)\<close> on an empty file: the
  frame holds page 0, dirty and unpinned, and the free list is empty.
\<close>

definition pool_one_dirty :: BufferPoolManager where
  "pool_one_dirty =
     \<lparr>diskManager = \<lparr>dbFile = \<lparr>file_pages = [], file_tail = None\<rparr>, nextPageID = 1\<rparr>,
      pages = [\<lparr>ID = 0, PinCount = 0, IsDirty = True, Data = zero_payload\<rparr>],
      replacer = \<lparr>capacity = 1, lru_list = [0]\<rparr>,
      freeList = [],
      pageTable = [(0, 0)]\<rparr>"

section \<open>Runs of the tree from the empty tree\<close>

text \<open>
  The runs below start from the empty tree (root id invalid) on a fresh pool of \<open>n\<close>
  frames over an empty database file, as the tests of the repository do.  Four units
  of fuel are enough for every descent and every climb in a tree of up to three levels.
\<close>

definition fuel :: nat where
  "fuel = Suc (Suc (Suc (Suc 0)))"

definition fresh_tree :: "nat \<Rightarrow> BPlusTree" where
  "fresh_tree n =
     NewBPlusTree InvalidPageID
       (NewBufferPoolManager (NewDiskManager \<lparr>file_pages = [], file_tail = None\<rparr>) n)"

text \<open>\<open>insert_all\<close> calls \<^verbatim>\<open>Insert\<close> for each pair in turn and collects the results.\<close>

fun insert_all :: "(64 word \<times> byte list) list \<Rightarrow> BPlusTree \<Rightarrow> (bool list \<times> BPlusTree) option" where
  "insert_all [] tree = Some ([], tree)"
| "insert_all ((key, val) # kvs) tree =
     do {
       (r, t1) \<leftarrow> Insert fuel tree key val;
       (rs, t2) \<leftarrow> insert_all kvs t1;
       Some (r # rs, t2)
     }"

text \<open>\<open>remove_all\<close> calls \<^verbatim>\<open>Remove\<close> for each key in turn and collects the results.\<close>

fun remove_all :: "64 word list \<Rightarrow> BPlusTree \<Rightarrow> (bool list \<times> BPlusTree) option" where
  "remove_all [] tree = Some ([], tree)"
| "remove_all (key # keys) tree =
     do {
       (r, t1) \<leftarrow> Remove_tree fuel tree key;
       (rs, t2) \<leftarrow> remove_all keys t1;
       Some (r # rs, t2)
     }"

text \<open>The occupied slots of a leaf: the first \<^verbatim>\<open>count\<close> (key, value) pairs.\<close>

definition leaf_pairs :: "payload \<Rightarrow> (64 word \<times> byte list) list" where
  "leaf_pairs p = take (nat (GetCount p)) (leaf_slots p)"

(*DEFS-END*)

section \<open>Properties of the disk manager\<close>

lemma file_size_nonneg: "0 \<le> file_size f"
  by (simp add: file_size_def PageSize_def split: option.split)

lemma upt_0_Suc_map: "[0..<Suc n] = 0 # map Suc [0..<n]"
  by (simp only: upt_conv_Cons [OF zero_less_Suc] map_Suc_upt)

lemma nextPageID_WritePage: "nextPageID (snd (WritePage d pageID dat)) = nextPageID d"
  by (simp add: WritePage_def Let_def)

lemma nextPageID_DeallocatePage: "nextPageID (DeallocatePage d pageID) = nextPageID d"
  by (simp add: DeallocatePage_def)

lemma run_disk_ids:
  "fst (run_disk cs d) = map (\<lambda>k. nextPageID d + of_nat k) [0..<allocations cs]"
proof (induction cs arbitrary: d)
  case Nil
  then show ?case by (simp add: allocations_def)
next
  case (Cons c cs)
  show ?case
  proof (cases c)
    case DiskAllocatePage
    let ?n = "allocations cs"
    have "fst (run_disk (c # cs) d) =
          nextPageID d # map (\<lambda>k. (nextPageID d + 1) + of_nat k) [0..<?n]"
      using Cons [of "d\<lparr>nextPageID := nextPageID d + 1\<rparr>"] DiskAllocatePage
      by (simp add: AllocatePage_def split_beta)
    also have "\<dots> = map (\<lambda>k. nextPageID d + of_nat k) (0 # map Suc [0..<?n])"
      by (simp add: comp_def ac_simps)
    also have "\<dots> = map (\<lambda>k. nextPageID d + of_nat k) [0..<Suc ?n]"
      by (simp only: upt_0_Suc_map)
    finally show ?thesis
      using DiskAllocatePage by (simp add: allocations_def)
  next
    case (DiskWritePage pageID dat)
    then show ?thesis
      using Cons [of "snd (WritePage d pageID dat)"]
      by (simp add: allocations_def nextPageID_WritePage)
  next
    case (DiskReadPage pageID)
    then show ?thesis
      using Cons [of d] by (simp add: allocations_def)
  next
    case (DiskDeallocatePage pageID)
    then show ?thesis
      using Cons [of "DeallocatePage d pageID"]
      by (simp add: allocations_def nextPageID_DeallocatePage)
  qed
qed

lemma sdiv_nonneg: "0 \<le> a \<Longrightarrow> 0 < b \<Longrightarrow> (a::int) sdiv b = a div b"
  by (simp add: signed_divide_int_def sgn_if)

lemma sint_of_int_eq:
  "- (2 ^ (LENGTH('a) - 1)) \<le> k \<Longrightarrow> k < 2 ^ (LENGTH('a) - 1) \<Longrightarrow>
   sint (word_of_int k :: 'a::len word) = k"
  by (simp add: sint_sbintrunc' signed_take_bit_int_eq_self)

lemma nextPageID_open:
  assumes "file_size f div PageSize + int k < 2 ^ 31"
  shows "sint (nextPageID (NewDiskManager f) + of_nat k) = file_size f div PageSize + int k"
proof -
  let ?S = "file_size f"
  have S0: "0 \<le> ?S" by (rule file_size_nonneg)
  have q0: "0 \<le> ?S div PageSize" using S0 by (simp add: PageSize_def)
  have qb: "?S div PageSize < 2 ^ 31" using assms by linarith
  have Sb: "?S < 2 ^ 63" using qb by (simp add: PageSize_def)
  have "sint (Size f) = ?S"
    unfolding Size_def using S0 Sb
    by (intro sint_of_int_eq) simp_all
  then have np: "nextPageID (NewDiskManager f) = word_of_int (?S div PageSize)"
    using S0 by (simp add: NewDiskManager_def sdiv_nonneg PageSize_def)
  have "nextPageID (NewDiskManager f) + of_nat k = (word_of_int (?S div PageSize + int k) :: 32 word)"
    by (simp add: np)
  moreover have "sint (word_of_int (?S div PageSize + int k) :: 32 word) = ?S div PageSize + int k"
    using q0 assms by (intro sint_of_int_eq) simp_all
  ultimately show ?thesis by simp
qed

text \<open>
  Claim C8, as stated: the first \<^verbatim>\<open>AllocatePage\<close> after opening a file of size \<open>S\<close> returns
  the page id \<open>S / PageSize\<close>, and every later call returns one more than the call before.
  A page id is an \<^verbatim>\<open>int32\<close>: for a file of \<open>2 ^ 31\<close> pages (8 TiB) the quotient does not fit
  and the first id returned is \<open>- 2 ^ 31\<close>.
\<close>

theorem AllocatePage_wraps_counterexample:
  "sint (fst (AllocatePage (NewDiskManager
      \<lparr>file_pages = replicate (2 ^ 31) zero_payload, file_tail = None\<rparr>)))
   \<noteq> file_size \<lparr>file_pages = replicate (2 ^ 31) zero_payload, file_tail = None\<rparr> div PageSize"
  by (simp add: AllocatePage_def NewDiskManager_def Size_def file_size_def PageSize_def
      signed_divide_int_def)

text \<open>
  Claim C8, amended: take any run of the disk manager after opening a file of size \<open>S\<close>,
  with calls of \<^verbatim>\<open>AllocatePage\<close>, \<^verbatim>\<open>WritePage\<close>, \<^verbatim>\<open>ReadPage\<close> and \<^verbatim>\<open>DeallocatePage\<close> in any
  order.  As long as the ids fit the page id type, that is \<open>S / PageSize + n \<le> 2 ^ 31\<close>
  for the \<open>n\<close> calls of \<^verbatim>\<open>AllocatePage\<close> in the run, these calls return \<open>S / PageSize\<close>,
  \<open>S / PageSize + 1\<close>, ..., \<open>S / PageSize + n - 1\<close> in this order: the first returns
  \<open>S / PageSize\<close> and each later one returns one more than the one before it, whatever
  was written, read or deallocated in between.
\<close>

theorem AllocatePage_sequence:
  assumes "file_size f div PageSize + int (allocations cs) \<le> 2 ^ 31"
  shows "map sint (fst (run_disk cs (NewDiskManager f))) =
         map (\<lambda>k. file_size f div PageSize + int k) [0..<allocations cs]"
proof -
  have "\<And>k. k < allocations cs \<Longrightarrow>
      sint (nextPageID (NewDiskManager f) + of_nat k) = file_size f div PageSize + int k"
    using assms by (intro nextPageID_open) linarith
  then show ?thesis
    by (simp add: run_disk_ids)
qed

theorem AllocatePage_sequence_witness:
  "file_size \<lparr>file_pages = [zero_payload, zero_payload], file_tail = Some (100, zero_payload)\<rparr>
     div PageSize
     + int (allocations [DiskAllocatePage, DiskWritePage 5 zero_payload, DiskAllocatePage,
              DiskReadPage 0, DiskDeallocatePage 2, DiskAllocatePage]) \<le> 2 ^ 31 \<and>
   map sint (fst (run_disk
     [DiskAllocatePage, DiskWritePage 5 zero_payload, DiskAllocatePage,
      DiskReadPage 0, DiskDeallocatePage 2, DiskAllocatePage]
     (NewDiskManager
       \<lparr>file_pages = [zero_payload, zero_payload], file_tail = Some (100, zero_payload)\<rparr>))) =
   [2, 3, 4]"
  using AllocatePage_sequence
    [of "\<lparr>file_pages = [zero_payload, zero_payload], file_tail = Some (100, zero_payload)\<rparr>"
        "[DiskAllocatePage, DiskWritePage 5 zero_payload, DiskAllocatePage,
          DiskReadPage 0, DiskDeallocatePage 2, DiskAllocatePage]"]
  by (simp add: file_size_def PageSize_def allocations_def upt_conv_Cons)


section \<open>Properties of the buffer pool\<close>






lemma pool_one_dirty_reached:
  "run_calls [CallNewPage, CallUnpinPage 0 True]
     (NewBufferPoolManager (NewDiskManager \<lparr>file_pages = [], file_tail = None\<rparr>) 1)
   = Some ([Some 0, None], pool_one_dirty)"
  by (simp add: NewBufferPoolManager_def NewDiskManager_def Size_def file_size_def PageSize_def
      NewLRUReplacer_def NewPage_def findVictimFrame_def AllocatePage_def frame_def set_frame_def
      Pin_def Unpin_def UnpinPage_def pool_one_dirty_def Let_def signed_divide_int_def)


lemma ran_map_of_delete: "ran (map_of (AList.delete k al)) \<subseteq> ran (map_of al)"
  by (auto simp: ran_def delete_conv' split: if_splits)

lemma ran_map_of_update: "ran (map_of (AList.update k v al)) \<subseteq> insert v (ran (map_of al))"
  by (auto simp: ran_def update_conv' split: if_splits)

lemma map_of_in_ran: "map_of al k = Some v \<Longrightarrow> v \<in> ran (map_of al)"
  by (auto simp: ran_def)

lemma tracked_set_frame [simp]: "tracked (set_frame f p b) = tracked b"
  by (simp add: tracked_def set_frame_def)

lemma tracked_diskManager [simp]: "tracked (b\<lparr>diskManager := dm\<rparr>) = tracked b"
  by (simp add: tracked_def)

lemma tracked_write_back [simp]: "tracked (write_back_victim vp b) = tracked b"
  by (simp add: write_back_victim_def)

lemma tracked_unmap: "tracked (unmap_victim vp b) \<subseteq> tracked b"
  using ran_map_of_delete [of "ID vp" "pageTable b"]
  by (auto simp: tracked_def unmap_victim_def)

lemma tracked_Pin: "tracked (b\<lparr>replacer := Pin f (replacer b)\<rparr>) \<subseteq> tracked b"
  by (auto simp: tracked_def Pin_def)

lemma tracked_Unpin: "tracked (b\<lparr>replacer := Unpin f (replacer b)\<rparr>) \<subseteq> insert f (tracked b)"
  by (auto simp: tracked_def Unpin_def)

lemma tracked_update: "tracked (b\<lparr>pageTable := AList.update k f (pageTable b)\<rparr>) \<subseteq> insert f (tracked b)"
  using ran_map_of_update [of k f "pageTable b"]
  by (auto simp: tracked_def)

lemma findVictimFrame_tracked:
  assumes "findVictimFrame b = Some (r, b1)"
  shows "tracked b1 \<subseteq> tracked b \<and> (\<forall>f. r = Some f \<longrightarrow> f \<in> tracked b)"
proof (cases "freeList b")
  case (Cons x xs)
  with assms show ?thesis
    by (auto simp: findVictimFrame_def tracked_def)
next
  case Nil
  show ?thesis
  proof (cases "lru_list (replacer b) = []")
    case True
    with Nil assms show ?thesis
      by (auto simp: findVictimFrame_def Victim_def tracked_def)
  next
    case False
    let ?f = "last (lru_list (replacer b))"
    let ?b1 = "b\<lparr>replacer := (replacer b)\<lparr>lru_list := butlast (lru_list (replacer b))\<rparr>\<rparr>"
    from Nil False assms obtain vp where vp: "frame ?b1 ?f = Some vp"
      and r: "r = Some ?f" and b1: "b1 = unmap_victim vp (write_back_victim vp ?b1)"
      by (auto simp: findVictimFrame_def Victim_def Let_def split: Option.bind_splits)
    have "tracked ?b1 \<subseteq> tracked b"
      by (auto simp: tracked_def dest: in_set_butlastD)
    moreover have "tracked b1 \<subseteq> tracked ?b1"
      unfolding b1 using tracked_unmap [where vp=vp and b="write_back_victim vp ?b1"] by simp
    moreover have "?f \<in> tracked b"
      using False by (simp add: tracked_def)
    ultimately show ?thesis using r by auto
  qed
qed

lemma FetchPage_tracked:
  assumes "FetchPage b pid = Some (r, b')"
  shows "tracked b' \<subseteq> tracked b \<and> (\<forall>f. r = Some f \<longrightarrow> f \<in> tracked b)"
proof (cases "map_of (pageTable b) pid")
  case (Some f)
  with assms obtain p where "b' = set_frame f (p\<lparr>PinCount := PinCount p + 1\<rparr>) (b\<lparr>replacer := Pin f (replacer b)\<rparr>)"
    and "r = Some f"
    by (auto simp: FetchPage_def Let_def split: Option.bind_splits)
  then show ?thesis
    using map_of_in_ran [OF Some] by (auto simp: tracked_def set_frame_def Pin_def)
next
  case None
  with assms obtain v b1 where fv: "findVictimFrame b = Some (v, b1)"
    by (auto simp: FetchPage_def Let_def split: Option.bind_splits)
  note t = findVictimFrame_tracked [OF fv]
  show ?thesis
  proof (cases v)
    case None
    with \<open>map_of (pageTable b) pid = None\<close> assms fv t show ?thesis
      by (auto simp: FetchPage_def)
  next
    case (Some f)
    with \<open>map_of (pageTable b) pid = None\<close> assms fv obtain p where
      "(r = None \<and> b' = set_frame f (p\<lparr>ID := pid, PinCount := 1, IsDirty := False\<rparr>) b1) \<or>
       (\<exists>dat b3. r = Some f \<and> b3 = (set_frame f (p\<lparr>ID := pid, PinCount := 1, IsDirty := False, Data := dat\<rparr>) b1)
            \<lparr>pageTable := AList.update pid f (pageTable b1)\<rparr> \<and> b' = b3\<lparr>replacer := Pin f (replacer b3)\<rparr>)"
      by (auto simp: FetchPage_def Let_def set_frame_def split: Option.bind_splits option.splits)
    then show ?thesis
    proof
      assume "r = None \<and> b' = set_frame f (p\<lparr>ID := pid, PinCount := 1, IsDirty := False\<rparr>) b1"
      then show ?thesis using t by auto
    next
      assume "\<exists>dat b3. r = Some f \<and> b3 = (set_frame f (p\<lparr>ID := pid, PinCount := 1, IsDirty := False, Data := dat\<rparr>) b1)
            \<lparr>pageTable := AList.update pid f (pageTable b1)\<rparr> \<and> b' = b3\<lparr>replacer := Pin f (replacer b3)\<rparr>"
      then obtain dat b3 where r: "r = Some f"
        and b3: "b3 = (set_frame f (p\<lparr>ID := pid, PinCount := 1, IsDirty := False, Data := dat\<rparr>) b1)
            \<lparr>pageTable := AList.update pid f (pageTable b1)\<rparr>"
        and b': "b' = b3\<lparr>replacer := Pin f (replacer b3)\<rparr>" by blast
      have "tracked b3 \<subseteq> insert f (tracked b1)"
        unfolding b3 using ran_map_of_update [of pid f "pageTable b1"]
        by (auto simp: tracked_def set_frame_def)
      moreover have "tracked b' \<subseteq> tracked b3" unfolding b' by (rule tracked_Pin)
      moreover have "f \<in> tracked b" using t Some by simp
      ultimately show ?thesis using t r by auto
    qed
  qed
qed


lemma UnpinPage_tracked:
  assumes "UnpinPage b pid dirty = Some (r, b')"
  shows "tracked b' \<subseteq> tracked b"
proof (cases "map_of (pageTable b) pid")
  case None
  with assms show ?thesis by (simp add: UnpinPage_def)
next
  case (Some f)
  have f: "f \<in> tracked b" using map_of_in_ran [OF Some] by (simp add: tracked_def)
  from assms Some obtain p where
    "b' = b \<or> (\<exists>p2. b' = set_frame f p2 b) \<or>
     (\<exists>p2. b' = (set_frame f p2 b)\<lparr>replacer := Unpin f (replacer (set_frame f p2 b))\<rparr>)"
    by (auto simp: UnpinPage_def Let_def split: Option.bind_splits if_splits)
  then show ?thesis
    using f tracked_Unpin [where b="set_frame f p2 b" and f=f for p2] by auto
qed

lemma NewPage_tracked:
  assumes "NewPage b = Some (r, b')"
  shows "tracked b' \<subseteq> tracked b \<and> (\<forall>f. r = Some f \<longrightarrow> f \<in> tracked b)"
proof -
  from assms obtain v b1 where fv: "findVictimFrame b = Some (v, b1)"
    by (auto simp: NewPage_def split: Option.bind_splits)
  note t = findVictimFrame_tracked [OF fv]
  show ?thesis
  proof (cases v)
    case None
    with assms fv t show ?thesis by (auto simp: NewPage_def)
  next
    case (Some f)
    with assms fv obtain p1 dm where r: "r = Some f"
      and b': "b' = ((set_frame f p1 (b1\<lparr>diskManager := dm\<rparr>))
                 \<lparr>pageTable := AList.update (nextPageID (diskManager b1)) f (pageTable b1)\<rparr>)
                 \<lparr>replacer := Pin f (replacer b1)\<rparr>"
      by (auto simp: NewPage_def Let_def AllocatePage_def set_frame_def split: Option.bind_splits)
    have "tracked b' \<subseteq> insert f (tracked b1)"
      unfolding b' using ran_map_of_update [of "nextPageID (diskManager b1)" f "pageTable b1"]
      by (auto simp: tracked_def set_frame_def Pin_def)
    moreover have "f \<in> tracked b" using t Some by simp
    ultimately show ?thesis using t r by auto
  qed
qed

lemma FlushPage_tracked:
  assumes "FlushPage b pid = Some (r, b')"
  shows "tracked b' \<subseteq> tracked b"
  using assms
  by (auto simp: FlushPage_def Let_def tracked_def set_frame_def
      split: option.splits Option.bind_splits)

lemma DeletePage_tracked:
  assumes "DeletePage b pid = Some (r, b')"
  shows "tracked b' \<subseteq> tracked b"
proof (cases "map_of (pageTable b) pid")
  case None
  with assms show ?thesis by (auto simp: DeletePage_def tracked_def)
next
  case (Some f)
  have f: "f \<in> ran (map_of (pageTable b))" by (rule map_of_in_ran [OF Some])
  from assms Some show ?thesis
    using f ran_map_of_delete [of pid "pageTable b"]
    by (auto simp: DeletePage_def Let_def tracked_def set_frame_def Pin_def DeallocatePage_def
        split: Option.bind_splits if_splits)
qed

lemma flush_frame_tracked: "tracked (flush_frame b i) = tracked b"
  by (simp add: flush_frame_def Let_def)

lemma foldl_flush_frame_tracked: "tracked (foldl flush_frame b is) = tracked b"
  by (induction "is" arbitrary: b) (simp_all add: flush_frame_tracked)

lemma FlushAllPages_tracked: "tracked (FlushAllPages b) = tracked b"
  by (simp add: FlushAllPages_def foldl_flush_frame_tracked)

lemma run_call_tracked:
  assumes "run_call c b = Some (r, b')"
  shows "tracked b' \<subseteq> tracked b \<and> (\<forall>f. r = Some f \<longrightarrow> f \<in> tracked b)"
proof (cases c)
  case (CallFetchPage pid)
  with assms show ?thesis using FetchPage_tracked [of b pid r b'] by simp
next
  case (CallUnpinPage pid dirty)
  with assms show ?thesis by (auto dest: UnpinPage_tracked)
next
  case CallNewPage
  with assms show ?thesis using NewPage_tracked [of b r b'] by simp
next
  case (CallFlushPage pid)
  with assms show ?thesis by (auto dest: FlushPage_tracked)
next
  case (CallDeletePage pid)
  with assms show ?thesis by (auto dest: DeletePage_tracked)
next
  case CallFlushAllPages
  with assms show ?thesis by (auto simp: FlushAllPages_tracked)
qed

lemma run_calls_tracked:
  assumes "run_calls cs b = Some (rs, b')"
  shows "tracked b' \<subseteq> tracked b \<and> (\<forall>f. Some f \<in> set rs \<longrightarrow> f \<in> tracked b)"
  using assms
proof (induction cs arbitrary: b rs)
  case Nil
  then show ?case by simp
next
  case (Cons c cs)
  from Cons.prems obtain r b1 rs' where c: "run_call c b = Some (r, b1)"
    and cs: "run_calls cs b1 = Some (rs', b')" and rs: "rs = r # rs'"
    by (auto split: Option.bind_splits)
  from run_call_tracked [OF c] Cons.IH [OF cs] rs show ?case by auto
qed


lemma findVictimFrame_pages:
  assumes "findVictimFrame b = Some (r, b1)"
  shows "pages b1 = pages b"
  using assms
  by (auto simp: findVictimFrame_def Victim_def Let_def unmap_victim_def write_back_victim_def
      split: if_splits Option.bind_splits)

lemma ran_map_of_delete_only:
  assumes "map_of al k = Some f" and "\<And>k'. map_of al k' = Some f \<Longrightarrow> k' = k"
  shows "ran (map_of (AList.delete k al)) = ran (map_of al) - {f}"
proof
  show "ran (map_of (AList.delete k al)) \<subseteq> ran (map_of al) - {f}"
    using assms(2) by (auto simp: ran_def delete_conv' split: if_splits)
  show "ran (map_of al) - {f} \<subseteq> ran (map_of (AList.delete k al))"
  proof
    fix g assume "g \<in> ran (map_of al) - {f}"
    then obtain k' where k': "map_of al k' = Some g" and "g \<noteq> f" by (auto simp: ran_def)
    with assms(1) have "k' \<noteq> k" by auto
    with k' show "g \<in> ran (map_of (AList.delete k al))"
      by (auto simp: ran_def delete_conv')
  qed
qed

lemma findVictimFrame_consistent:
  assumes c: "pool_consistent b" and fv: "findVictimFrame b = Some (Some f, b1)"
  shows "tracked b1 = tracked b - {f} \<and> f \<in> tracked b \<and> f < length (pages b)"
proof (cases "freeList b")
  case (Cons x xs)
  with fv have f: "f = x" and b1: "b1 = b\<lparr>freeList := xs\<rparr>"
    by (auto simp: findVictimFrame_def)
  from c Cons have "x \<notin> set xs" and "x \<notin> set (lru_list (replacer b))"
    and "x \<notin> ran (map_of (pageTable b))" and "x < length (pages b)"
    by (auto simp: pool_consistent_def ran_def)
  then show ?thesis
    unfolding f b1 using Cons by (auto simp: tracked_def)
next
  case Nil
  let ?l = "lru_list (replacer b)"
  from Nil fv have ne: "?l \<noteq> []"
    by (auto simp: findVictimFrame_def Victim_def)
  let ?b0 = "b\<lparr>replacer := (replacer b)\<lparr>lru_list := butlast ?l\<rparr>\<rparr>"
  from Nil ne fv obtain vp where vp: "frame ?b0 (last ?l) = Some vp"
    and f: "f = last ?l" and b1: "b1 = unmap_victim vp (write_back_victim vp ?b0)"
    by (auto simp: findVictimFrame_def Victim_def Let_def split: Option.bind_splits)
  from vp have len: "f < length (pages b)" and vpeq: "vp = pages b ! f"
    unfolding f by (auto simp: frame_def split: if_splits)
  have fin: "f \<in> set ?l" unfolding f using ne by simp
  from c fin have tab: "map_of (pageTable b) (ID vp) = Some f"
    unfolding vpeq by (simp add: pool_consistent_def)
  have only: "\<And>k'. map_of (pageTable b) k' = Some f \<Longrightarrow> k' = ID vp"
    using c unfolding vpeq by (auto simp: pool_consistent_def)
  have ran: "ran (map_of (AList.delete (ID vp) (pageTable b))) = ran (map_of (pageTable b)) - {f}"
    by (rule ran_map_of_delete_only [OF tab only])
  from c have "distinct ?l" by (simp add: pool_consistent_def)
  then have "distinct (butlast ?l @ [last ?l])" using ne by simp
  then have nb: "f \<notin> set (butlast ?l)" unfolding f by simp
  have sb: "set ?l = insert f (set (butlast ?l))"
    using ne unfolding f by (metis append_butlast_last_id list.simps(15) rotate1.simps(2) set_rotate1)
  have "tracked b1 = ran (map_of (AList.delete (ID vp) (pageTable b))) \<union> set (butlast ?l)"
    unfolding b1 using Nil by (simp add: tracked_def unmap_victim_def write_back_victim_def)
  also have "\<dots> = tracked b - {f}"
    using ran nb sb Nil by (auto simp: tracked_def)
  finally show ?thesis using fin len by (auto simp: tracked_def)
qed

text \<open>
  Claim C10: in a pool whose bookkeeping is consistent, when \<^verbatim>\<open>FetchPage\<close> misses the page
  table, \<^verbatim>\<open>findVictimFrame\<close> selects the frame \<open>f\<close> and the disk read fails, \<^verbatim>\<open>FetchPage\<close>
  returns \<^verbatim>\<open>nil\<close>; \<open>f\<close> is then on none of the free list, the page table and the replacer,
  with pin count 1; the frames the pool can hand out are those of before without \<open>f\<close>;
  and after any run of pool calls from there no call has handed out \<open>f\<close>, \<open>f\<close> is still in
  none of the three, and the frames the pool can hand out have not grown.
\<close>

theorem FetchPage_read_error_loses_frame:
  assumes "pool_consistent b"
    and "map_of (pageTable b) pid = None"
    and "findVictimFrame b = Some (Some f, b1)"
    and "ReadPage (diskManager b1) pid = Some None"
  shows "\<exists>b'. FetchPage b pid = Some (None, b') \<and>
           f \<notin> set (freeList b') \<and> f \<notin> ran (map_of (pageTable b')) \<and>
           f \<notin> set (lru_list (replacer b')) \<and>
           PinCount (pages b' ! f) = 1 \<and>
           f \<in> tracked b \<and> tracked b' = tracked b - {f} \<and>
           (\<forall>cs rs b''. run_calls cs b' = Some (rs, b'') \<longrightarrow>
              Some f \<notin> set rs \<and> f \<notin> tracked b'' \<and> tracked b'' \<subseteq> tracked b - {f})"
proof -
  note v = findVictimFrame_consistent [OF assms(1) assms(3)]
  have pg: "pages b1 = pages b" by (rule findVictimFrame_pages [OF assms(3)])
  let ?p1 = "(pages b ! f)\<lparr>ID := pid, PinCount := 1, IsDirty := False\<rparr>"
  let ?b' = "set_frame f ?p1 b1"
  have fr: "frame b1 f = Some (pages b ! f)" using v pg by (simp add: frame_def)
  have fetch: "FetchPage b pid = Some (None, ?b')"
    using assms(2,3,4) fr by (simp add: FetchPage_def Let_def)
  have tr: "tracked ?b' = tracked b - {f}" using v by (simp add: tracked_set_frame)
  have pin: "PinCount (pages ?b' ! f) = 1" using v pg by (simp add: set_frame_def)
  have nt: "f \<notin> tracked ?b'" using tr by simp
  have later: "Some f \<notin> set rs \<and> f \<notin> tracked b'' \<and> tracked b'' \<subseteq> tracked b - {f}"
    if "run_calls cs ?b' = Some (rs, b'')" for cs rs b''
    using run_calls_tracked [OF that] nt tr by auto
  from fetch nt pin v tr later show ?thesis
    by (intro exI [of _ ?b']) (auto simp: tracked_def)
qed


theorem FetchPage_read_error_loses_frame_witness:
  "pool_consistent pool_one_dirty \<and> map_of (pageTable pool_one_dirty) 7 = None \<and>
   findVictimFrame pool_one_dirty =
     Some (Some 0, unmap_victim (pages pool_one_dirty ! 0)
                     (write_back_victim (pages pool_one_dirty ! 0)
                        (pool_one_dirty\<lparr>replacer := \<lparr>capacity = 1, lru_list = []\<rparr>\<rparr>))) \<and>
   (\<exists>b'. FetchPage pool_one_dirty 7 = Some (None, b') \<and> tracked b' = {} \<and>
      PinCount (pages b' ! 0) = 1 \<and>
      (\<forall>cs rs b''. run_calls cs b' = Some (rs, b'') \<longrightarrow> Some 0 \<notin> set rs \<and> tracked b'' = {}))"
proof -
  let ?b1 = "unmap_victim (pages pool_one_dirty ! 0)
               (write_back_victim (pages pool_one_dirty ! 0)
                  (pool_one_dirty\<lparr>replacer := \<lparr>capacity = 1, lru_list = []\<rparr>\<rparr>))"
  have c: "pool_consistent pool_one_dirty"
    by (simp add: pool_consistent_def pool_one_dirty_def)
  have m: "map_of (pageTable pool_one_dirty) 7 = None"
    by (simp add: pool_one_dirty_def)
  have v: "findVictimFrame pool_one_dirty = Some (Some 0, ?b1)"
    by (simp add: findVictimFrame_def Victim_def frame_def pool_one_dirty_def)
  have r: "ReadPage (diskManager ?b1) 7 = Some None"
    by (simp add: unmap_victim_def write_back_victim_def WritePage_def ReadPage_def
        pool_one_dirty_def PageSize_def file_size_def Let_def)
  have t: "tracked pool_one_dirty = {0}"
    by (simp add: tracked_def pool_one_dirty_def)
  from FetchPage_read_error_loses_frame [OF c m v r] t c m v show ?thesis
    by auto
qed


section \<open>Evaluating runs of the tree\<close>

text \<open>
  A run on concrete keys and values is evaluated by rewriting with the definitions of
  the model.  The weak congruence rules make the rewriting follow the program: the
  continuation of a bind and the branches of a case are rewritten only once the value
  they depend on is known.
\<close>

lemmas const_defs = PageSize_def SizeOfPageID_def SizeOfInt64_def SizeOfVal_def HeaderSize_def
  MaxDegree_def KindInternal_def KindLeaf_def InvalidPageID_def
lemmas layout_defs = in_page_def GetPageID_def SetPageID_def GetParentID_def SetParentID_def
  GetPageType_def SetPageType_def GetCount_def SetCount_def GetNextPageID_def SetNextPageID_def
  Init_def IsLeaf_def getKeyOffset_def getPairOffset_def GetKey_def SetKey_def GetValue_def
  SetValue_def GetValueAsPageID_def SetValueAsPageID_def IsFull_def MinDegree_def InsertLeaf_def
  MoveHalfTo_def Remove_def MoveAllTo_def MoveFirstToEndOf_def MoveLastToFrontOf_def
  zero_payload_def
lemmas pool_defs = NewDiskManager_def file_size_def Size_def ReadPage_def WritePage_def
  AllocatePage_def DeallocatePage_def NewLRUReplacer_def Victim_def Pin_def Unpin_def
  NewBufferPoolManager_def frame_def set_frame_def write_back_victim_def unmap_victim_def
  findVictimFrame_def FetchPage_def UnpinPage_def NewPage_def FlushPage_def DeletePage_def
lemmas tree_defs = NewBPlusTree_def IsEmpty_def node_def page_ID_def put_node_def modify_def
  modify'_def modify2_def fetch_def new_page_def unpin_def delete_page_def StartNewTree_def
  FindLeafPage_def GetValue_tree_def insertInternal_def Insert_def adjustRoot_def
  redistribute_def Remove_tree_def Begin_def NewTreeIterator_def Key_def Value_def Next_def
  Close_def fuel_def fresh_tree_def

lemma copy_bytes_Nil: "copy_bytes d [] = d"
  by (simp add: copy_bytes_def)
lemma copy_bytes_zero: "copy_bytes zero_value zero_value = zero_value"
  by (simp add: copy_bytes_def)
lemma list_update_numeral: "(x # xs)[numeral k := y] = x # xs[pred_numeral k := y]"
  by (simp add: numeral_eq_Suc)
lemma replicate_numeral_Cons: "replicate (numeral k) x = x # replicate (pred_numeral k) x"
  by (simp add: numeral_eq_Suc)
lemma slot_read_numeral: "slot_read z (x # xs) (numeral k) = slot_read z xs (pred_numeral k)"
  by (simp add: numeral_eq_Suc)
lemma slot_write_numeral:
  "slot_write z (x # xs) (numeral k) v = x # slot_write z xs (pred_numeral k) v"
  "slot_write z [] (numeral k) v = z # slot_write z [] (pred_numeral k) v"
  by (simp_all add: numeral_eq_Suc)
lemma bind_weak_cong: "m = m' \<Longrightarrow> Option.bind m f = Option.bind m' f"
  by simp

lemmas eval_simps = const_defs layout_defs pool_defs tree_defs Let_def
  copy_bytes_Nil copy_bytes_zero list_update_numeral replicate_numeral_Cons slot_read_numeral
  slot_write_numeral word_sless_alt word_sle_eq upt_conv_Cons signed_divide_int_def
lemmas eval_congs = bind_weak_cong option.case_cong_weak prod.case_cong_weak
  list.case_cong_weak if_weak_cong


lemma dropWhile_zeros:
  "dropWhile (\<lambda>b. b = (0::byte)) (replicate n 0 @ ys) = dropWhile (\<lambda>b. b = 0) ys"
  by (induction n) simp_all

lemma TrimRight_zeros: "TrimRight (xs @ replicate n 0) = TrimRight xs"
  by (simp add: TrimRight_def dropWhile_zeros)

lemma TrimRight_zero_value: "TrimRight zero_value = []"
  using dropWhile_zeros [of 128 "[]"] by (simp add: TrimRight_def zero_value_def)

lemma length_zero_value: "length zero_value = 128"
  by (simp add: zero_value_def)

lemma drop_zero_value: "drop n zero_value = replicate (128 - n) 0"
  by (simp add: zero_value_def)

section \<open>Properties of the tree\<close>

text \<open>
  Claim C1 says that after inserting distinct keys into an empty tree, \<^verbatim>\<open>GetValue\<close> returns
  for each key exactly the bytes inserted for it.  \<^verbatim>\<open>InsertLeaf\<close> shifts the slots behind
  the insertion index and then calls \<^verbatim>\<open>SetValue\<close> with the caller's value, which
  overwrites only as many bytes of the slot as the value has; the slot still holds the
  value that was shifted out of it.  Run: insert key 2 with the bytes of "Hello", then
  key 1 with the bytes of "Hi".  Both calls return true, and \<^verbatim>\<open>GetValue(1)\<close> returns the
  bytes of "Hillo".
\<close>

theorem GetValue_returns_stale_bytes:
  "do {
     (rs, t1) \<leftarrow> insert_all [(2, [72, 101, 108, 108, 111]), (1, [72, 105])] (fresh_tree 2);
     (r, t2) \<leftarrow> GetValue_tree fuel t1 1;
     Some (rs, r)
   } = Some ([True, True], Some [72, 105, 108, 108, 111])"
  apply (simp add: eval_simps copy_bytes_def length_zero_value drop_zero_value TrimRight_zeros
      cong: eval_congs)
  apply (simp add: TrimRight_def)
  done

text \<open>
  Claim C2 says that \<^verbatim>\<open>Insert\<close> of a key that is in the tree returns false and leaves the
  tree as it is.  When the leaf of the key is full, \<^verbatim>\<open>Insert\<close> splits it before it looks
  for the key, drops the result of \<^verbatim>\<open>InsertLeaf\<close> and returns true.  Run: insert the keys
  0 to 27, which fill the root leaf (page 0), then insert key 5 again with the value
  \<open>[1]\<close>.  The call returns true and the tree has a new root (page 2); the value stored
  for key 5 is not overwritten.
\<close>

theorem Insert_duplicate_into_full_leaf:
  "do {
     (rs, t1) \<leftarrow> insert_all (map (\<lambda>i. (of_nat i, [])) [0..<28]) (fresh_tree 4);
     (v1, t2) \<leftarrow> GetValue_tree fuel t1 5;
     (r, t3) \<leftarrow> Insert fuel t2 5 [1];
     (v2, t4) \<leftarrow> GetValue_tree fuel t3 5;
     Some (rs, v1, rootPageId t2, r, v2, rootPageId t4)
   } = Some (replicate 28 True, Some [], 0, True, Some [], 2)"
  by (simp add: eval_simps TrimRight_zero_value cong: eval_congs)

text \<open>
  Claim C3 says that after a tree operation every frame it touched has pin count 0.
  \<^verbatim>\<open>coalesce\<close> calls \<^verbatim>\<open>DeletePage\<close> on the right node while the node is still pinned, so
  \<^verbatim>\<open>DeletePage\<close> refuses, and no caller unpins the node afterwards.  Run: insert the keys
  0 to 28 (the root leaf splits into page 0 with 14 keys and page 1 with 15, under the
  root page 2), remove key 14, then remove key 15, which makes page 1 underflow and
  merges it into page 0.  Both removals return true, and the frame of page 1 is left
  with pin count 1.
\<close>

theorem Remove_coalesce_leaves_page_pinned:
  "do {
     (rs, t1) \<leftarrow> insert_all (map (\<lambda>i. (of_nat i, [])) [0..<29]) (fresh_tree 4);
     (ds, t2) \<leftarrow> remove_all [14, 15] t1;
     Some (rs, ds, map (\<lambda>p. (ID p, sint (PinCount p))) (pages (bpm t2)))
   } = Some (replicate 29 True, [True, True], [(0, 0), (1, 1), (2, 0), (0, 0)])"
  by (simp add: eval_simps cong: eval_congs)

text \<open>
  Claim C6 says that \<^verbatim>\<open>Remove\<close> of the last key of a root leaf returns true, makes the root
  id invalid and delete-pages the old root.  \<^verbatim>\<open>Remove\<close> handles a root leaf itself and
  only unpins it; \<^verbatim>\<open>adjustRoot\<close>, which calls \<^verbatim>\<open>DeletePage\<close> for an empty root leaf, is not
  reached.  Run: insert key 1, remove key 1.  \<^verbatim>\<open>Remove\<close> returns true and the root id is
  invalid, but page 0 is still in the page table and its frame is not on the free list;
  a call of \<^verbatim>\<open>DeletePage(0)\<close> after it is what removes the page and frees the frame.
\<close>

theorem Remove_last_key_keeps_root_page:
  "do {
     (rs, t1) \<leftarrow> insert_all [(1, [])] (fresh_tree 2);
     (r, t2) \<leftarrow> Remove_tree fuel t1 1;
     (d, b3) \<leftarrow> DeletePage (bpm t2) 0;
     Some (r, rootPageId t2 = InvalidPageID,
           map_of (pageTable (bpm t2)) 0, freeList (bpm t2), ID (pages (bpm t2) ! 0),
           d, map_of (pageTable b3) 0, freeList b3, ID (pages b3 ! 0) = InvalidPageID)
   } = Some (True, True, Some 0, [1], 0, True, None, [1, 0], True)"
  by (simp add: eval_simps cong: eval_congs)

text \<open>
  Claim C7 says that after an \<^verbatim>\<open>Insert\<close> that splits a leaf the two leaves hold the pairs
  of the old leaf and the new pair.  After \<^verbatim>\<open>MoveHalfTo\<close> the slots of the upper half are
  still in the old leaf behind its count, and \<^verbatim>\<open>InsertLeaf\<close> writes a new last pair over
  the first of them with \<^verbatim>\<open>SetValue\<close>, which keeps the bytes of the old value behind the
  new one.  Run: insert the even keys 0 to 54, key 28 with the bytes of "AAAA", the
  others with the empty value; then insert key 27 with the byte of "B".  The leaf splits
  into page 0 with the keys 0 to 26 and 27 and page 1 with the keys 28 to 54, and the next
  pointers are as the claim says, but the value stored with key 27 is "BAAA" and not
  "B": the pair (27, "B") is in neither leaf.
\<close>

theorem Insert_split_stores_stale_value:
  "do {
     (rs, t1) \<leftarrow> insert_all
        (map (\<lambda>i. (2 * of_nat i, if i = 14 then [65, 65, 65, 65] else [])) [0..<28])
        (fresh_tree 4);
     (r, t2) \<leftarrow> Insert fuel t1 27 [66];
     leaf \<leftarrow> node t2 0;
     sibling \<leftarrow> node t2 1;
     Some (rs, r, map fst (leaf_pairs leaf), map fst (leaf_pairs sibling),
           snd (leaf_pairs leaf ! 14), snd (leaf_pairs leaf ! 14) = copy_bytes zero_value [66],
           GetNextPageID leaf, GetPageID sibling, GetNextPageID sibling)
   } = Some (replicate 28 True, True,
             [0, 2, 4, 6, 8, 10, 12, 14, 16, 18, 20, 22, 24, 26, 27],
             [28, 30, 32, 34, 36, 38, 40, 42, 44, 46, 48, 50, 52, 54],
             [66, 65, 65, 65] @ replicate 124 0, False, 1, 1, 0)"
  by (simp add: eval_simps leaf_pairs_def copy_bytes_def length_zero_value drop_zero_value
      cong: eval_congs)

text \<open>
  Claim C9 says that for an iterator on the slot of key \<open>k\<close>, \<^verbatim>\<open>Value()\<close> returns the
  128-byte buffer of the slot and \<^verbatim>\<open>GetValue(k)\<close> the same bytes without the trailing zero
  bytes, so that the two differ for every stored value shorter than 128 bytes.  The
  buffer of a short value is zero-padded only where the slot held zeros before (see
  C1).  Run: insert key 2 with 128 bytes "A", then key 1 with the one byte "B"; the
  iterator of \<^verbatim>\<open>Begin\<close> is on key 1.  \<^verbatim>\<open>Value()\<close> returns 128 bytes, "B" and 127 times "A",
  and \<^verbatim>\<open>GetValue(1)\<close> returns the same 128 bytes.
\<close>

theorem Value_equals_GetValue_for_short_value:
  "do {
     (rs, t1) \<leftarrow> insert_all [(2, replicate 128 65), (1, [66])] (fresh_tree 2);
     (i, t2) \<leftarrow> Begin fuel t1;
     it \<leftarrow> i;
     k \<leftarrow> Key (bpm t2) it;
     v \<leftarrow> Value (bpm t2) it;
     (g, t3) \<leftarrow> GetValue_tree fuel t2 k;
     Some (rs, k, map_option length v, v = g, v = Some (66 # replicate 127 65))
   } = Some ([True, True], 1, Some 128, True, True)"
  apply (simp add: eval_simps copy_bytes_def length_zero_value drop_zero_value cong: eval_congs)
  apply (simp add: TrimRight_def)
  done

end
